theory Spec2Isabelle
  imports Main
begin

section \<open>Data model\<close>

text \<open>
  The module \<^verbatim>\<open>src/app/utils/fundAndUploadNestedBundle.ts\<close> wraps each picked file
  in a signed data item, builds a manifest over the items, bundles everything and hands
  the bundle to a chunked uploader. All cryptography, serialisation and transport is
  done by the imported libraries (arbundles, arweave, the Irys client); the module only
  decides which library call receives which argument, in which order, and what is
  returned. The libraries are therefore a parameter of the model (the record
  \<open>sdk\<close> below), and the module's own functions are translated line by line.
\<close>

text \<open>The source's \<^verbatim>\<open>type Tag = { name: string; value: string }\<close>.\<close>

record tag =
  tag_name :: string
  tag_value :: string

text \<open>Raw bytes (\<^verbatim>\<open>Uint8Array\<close>, \<^verbatim>\<open>Buffer\<close>); a HOL character is one byte.\<close>

type_synonym bytes = "char list"

text \<open>
  Anything thrown or rejected. \<open>SdkError\<close> is an exception raised by a library or
  browser call; \<open>TypeError\<close> is what JavaScript raises when a property of
  \<^verbatim>\<open>undefined\<close> is read.
\<close>

datatype error = SdkError string | TypeError

text \<open>
  A browser \<^verbatim>\<open>File\<close>: the fields the module reads. \<^verbatim>\<open>file.arrayBuffer()\<close> is a
  promise, which may reject.
\<close>

record File =
  file_name :: string
  file_type :: string
  file_arrayBuffer :: "error + bytes"

text \<open>
  The first argument of \<^verbatim>\<open>createData\<close> is a byte array (for a file) or a string
  (for the serialised manifest).
\<close>

datatype data = Uint8Array bytes | Text string

text \<open>
  The events of the chunked uploader the module listens to, with the fields its
  callbacks read: \<^verbatim>\<open>chunkUpload\<close> (id, offset, size, totalUploaded),
  \<^verbatim>\<open>chunkError\<close> (id, res.statusText) and \<^verbatim>\<open>done\<close> (id).
\<close>

datatype uploader_event =
    ChunkUpload nat nat nat nat
  | ChunkError nat string
  | Done_event string

text \<open>
  What the module writes to the console. The message texts are fixed templates around
  the values kept here.
\<close>

datatype console_line =
    Log_chunk_uploaded nat nat nat nat
  | Error_chunk_error nat string
  | Log_upload_completed string
  | Log_error_on_upload error

text \<open>
  \<^verbatim>\<open>getIrys()\<close> is called at two places, once in \<^verbatim>\<open>bundleItems\<close> (line 51) and once
  in \<^verbatim>\<open>uploadBundle\<close> (line 72). Each place runs at most once in a run of
  \<^verbatim>\<open>fundAndUploadNestedBundle\<close>, and the two calls need not have the same outcome.
\<close>

datatype call_site = In_bundleItems | In_uploadBundle

text \<open>
  The environment of a run: the library calls the module makes, and the order in time
  in which the file promises settle. The library types (key, signer, data item, client,
  manifest, bundle, transaction, receipt) are opaque to the module and stay type
  parameters. A call that can throw or reject returns \<open>error + 'a\<close>.

  \<^item> \<open>generateJWK\<close>: \<^verbatim>\<open>Arweave.crypto.generateJWK()\<close>
  \<^item> \<open>ArweaveSigner\<close>: \<^verbatim>\<open>new ArweaveSigner(jwk)\<close>
  \<^item> \<open>createData\<close>: \<^verbatim>\<open>createData(data, signer, { tags })\<close>
  \<^item> \<open>sign\<close>: \<^verbatim>\<open>item.sign(signer)\<close>, which signs the item in place; the result is
    the item afterwards
  \<^item> \<open>item_id\<close>: \<^verbatim>\<open>item.id\<close>
  \<^item> \<open>getIrys\<close>: \<^verbatim>\<open>getIrys()\<close>, the connected client, as the call at the given place
    returns it
  \<^item> \<open>generateManifest\<close>: \<^verbatim>\<open>irys.uploader.generateManifest({ items })\<close>
  \<^item> \<open>JSON_stringify\<close>: \<^verbatim>\<open>JSON.stringify(manifest)\<close>
  \<^item> \<open>bundleAndSignData\<close>: \<^verbatim>\<open>bundleAndSignData(items, signer)\<close>
  \<^item> \<open>items\<close>: \<^verbatim>\<open>bundle.items\<close>
  \<^item> \<open>getRaw\<close>: \<^verbatim>\<open>bundle.getRaw()\<close>
  \<^item> \<open>createTransaction\<close>: \<^verbatim>\<open>irys.createTransaction(data, { tags })\<close>
  \<^item> \<open>tx_sign\<close>: \<^verbatim>\<open>tx.sign()\<close>, in place; the result is the transaction afterwards
  \<^item> \<open>uploadTransaction\<close>:
    \<^verbatim>\<open>irys.uploader.chunkedUploader.uploadTransaction(tx)\<close>: the events emitted
    while it runs, and the receipt or the rejection
  \<^item> \<open>receipt_data_id\<close>: \<^verbatim>\<open>receipt.data.id\<close>
  \<^item> \<open>settled_at\<close>: the time at which the promise of the file at a given position of
    the input list settles (the files are prepared concurrently)
\<close>

record ('jwk, 'signer, 'item, 'irys, 'manifest, 'bundle, 'tx, 'receipt) sdk =
  generateJWK :: "error + 'jwk"
  ArweaveSigner :: "'jwk \<Rightarrow> 'signer"
  createData :: "data \<Rightarrow> 'signer \<Rightarrow> tag list \<Rightarrow> error + 'item"
  sign :: "'item \<Rightarrow> 'signer \<Rightarrow> error + 'item"
  item_id :: "'item \<Rightarrow> string"
  getIrys :: "call_site \<Rightarrow> error + 'irys"
  generateManifest :: "'irys \<Rightarrow> (string \<times> string) list \<Rightarrow> error + 'manifest"
  JSON_stringify :: "'manifest \<Rightarrow> string"
  bundleAndSignData :: "'item list \<Rightarrow> 'signer \<Rightarrow> error + 'bundle"
  items :: "'bundle \<Rightarrow> 'item list"
  getRaw :: "'bundle \<Rightarrow> bytes"
  createTransaction :: "'irys \<Rightarrow> bytes \<Rightarrow> tag list \<Rightarrow> error + 'tx"
  tx_sign :: "'tx \<Rightarrow> error + 'tx"
  uploadTransaction :: "'irys \<Rightarrow> 'tx \<Rightarrow> uploader_event list \<times> (error + 'receipt)"
  receipt_data_id :: "'receipt \<Rightarrow> string"
  settled_at :: "nat \<Rightarrow> nat"

section \<open>JavaScript's Map and Promise.all\<close>

text \<open>
  A JavaScript \<^verbatim>\<open>Map\<close> iterates in insertion order, and \<^verbatim>\<open>set\<close> on a key that
  is already present replaces the value where the key stands. It is modelled as an
  association list; \<open>Map_set\<close> is \<^verbatim>\<open>Map.prototype.set\<close>, \<open>Map_set_all\<close> sets
  a list of entries from left to right, and \<open>new_Map\<close> is \<^verbatim>\<open>new Map(entries)\<close>, which
  sets the entries into the empty map.
\<close>

fun Map_set :: "'k \<Rightarrow> 'v \<Rightarrow> ('k \<times> 'v) list \<Rightarrow> ('k \<times> 'v) list" where
  "Map_set k v [] = [(k, v)]"
| "Map_set k v (p # ps) = (if fst p = k then (k, v) # ps else p # Map_set k v ps)"

definition Map_set_all :: "('k \<times> 'v) list \<Rightarrow> ('k \<times> 'v) list \<Rightarrow> ('k \<times> 'v) list" where
  "Map_set_all m entries = foldl (\<lambda>m (k, v). Map_set k v m) m entries"

definition new_Map :: "('k \<times> 'v) list \<Rightarrow> ('k \<times> 'v) list" where
  "new_Map entries = Map_set_all [] entries"

text \<open>\<^verbatim>\<open>[...map.values()]\<close>\<close>

definition Map_values :: "('k \<times> 'v) list \<Rightarrow> 'v list" where
  "Map_values m = map snd m"

text \<open>
  \<^verbatim>\<open>await Promise.all(promises)\<close>: the array of results in the order of the promises
  when all are fulfilled; otherwise it rejects with the reason of the promise that
  rejects first in time. \<open>t i\<close> is the time at which promise \<open>i\<close> settles.
  \<open>rejections\<close> lists the rejected promises with their positions, \<open>first_in_time\<close>
  picks the earliest of them (of two that settle at the same time, the one that stands
  first), and \<open>fulfilled\<close> lists the values of the fulfilled ones.
\<close>

fun rejections :: "nat \<Rightarrow> (error + 'a) list \<Rightarrow> (nat \<times> error) list" where
  "rejections i [] = []"
| "rejections i (p # ps) =
     (case p of
        Inl e \<Rightarrow> (i, e) # rejections (Suc i) ps
      | Inr x \<Rightarrow> rejections (Suc i) ps)"

fun first_in_time :: "(nat \<Rightarrow> nat) \<Rightarrow> nat \<times> error \<Rightarrow> (nat \<times> error) list \<Rightarrow> nat \<times> error" where
  "first_in_time t r [] = r"
| "first_in_time t r (r' # rs) =
     first_in_time t (if t (fst r') < t (fst r) then r' else r) rs"

fun fulfilled :: "(error + 'a) list \<Rightarrow> 'a list" where
  "fulfilled [] = []"
| "fulfilled (p # ps) = (case p of Inl e \<Rightarrow> fulfilled ps | Inr x \<Rightarrow> x # fulfilled ps)"

definition Promise_all :: "(nat \<Rightarrow> nat) \<Rightarrow> (error + 'a) list \<Rightarrow> error + 'a list" where
  "Promise_all t ps =
     (case rejections 0 ps of
        [] \<Rightarrow> Inr (fulfilled ps)
      | r # rs \<Rightarrow> Inl (snd (first_in_time t r rs)))"

section \<open>The module's functions\<close>

text \<open>
  \<^verbatim>\<open>prepareFile\<close>: \<^verbatim>\<open>createData\<close> on the file's bytes with the single tag
  Content-Type, then \<^verbatim>\<open>item.sign\<close>.
\<close>

definition prepareFile ::
  "('jwk, 'signer, 'item, 'irys, 'manifest, 'bundle, 'tx, 'receipt) sdk
     \<Rightarrow> File \<Rightarrow> 'signer \<Rightarrow> error + 'item" where
  "prepareFile lib file ephemeralSigner =
     (case file_arrayBuffer file of
        Inl e \<Rightarrow> Inl e
      | Inr buf \<Rightarrow>
          (case createData lib (Uint8Array buf) ephemeralSigner
                  [\<lparr>tag_name = ''Content-Type'', tag_value = file_type file\<rparr>] of
             Inl e \<Rightarrow> Inl e
           | Inr item \<Rightarrow> sign lib item ephemeralSigner))"

text \<open>
  \<^verbatim>\<open>prepareFiles\<close>: one pair (file name, prepared item) per file, through
  \<^verbatim>\<open>Promise.all\<close>, and a \<^verbatim>\<open>Map\<close> of the pairs. The files are prepared
  concurrently; each preparation depends on its own file only, and the environment says
  in which order they settle.
\<close>

definition prepareFiles ::
  "('jwk, 'signer, 'item, 'irys, 'manifest, 'bundle, 'tx, 'receipt) sdk
     \<Rightarrow> File list \<Rightarrow> 'signer \<Rightarrow> error + (string \<times> 'item) list" where
  "prepareFiles lib files ephemeralSigner =
     (case Promise_all (settled_at lib)
             (map (\<lambda>file.
                     case prepareFile lib file ephemeralSigner of
                       Inl e \<Rightarrow> Inl e
                     | Inr item \<Rightarrow> Inr (file_name file, item))
                  files) of
        Inl e \<Rightarrow> Inl e
      | Inr entries \<Rightarrow> Inr (new_Map entries))"

text \<open>
  The local \<^verbatim>\<open>pathMap\<close> of \<^verbatim>\<open>bundleItems\<close>:
  \<^verbatim>\<open>new Map([...itemMap].map(([path, item]) => [path, item.id]))\<close>.
\<close>

definition pathMap ::
  "('jwk, 'signer, 'item, 'irys, 'manifest, 'bundle, 'tx, 'receipt) sdk
     \<Rightarrow> (string \<times> 'item) list \<Rightarrow> (string \<times> string) list" where
  "pathMap lib itemMap = new_Map (map (\<lambda>(path, item). (path, item_id lib item)) itemMap)"

text \<open>The two tags of the manifest item.\<close>

definition manifest_tags :: "tag list" where
  "manifest_tags =
     [\<lparr>tag_name = ''Type'', tag_value = ''manifest''\<rparr>,
      \<lparr>tag_name = ''Content-Type'', tag_value = ''application/x.arweave-manifest+json''\<rparr>]"

text \<open>
  \<^verbatim>\<open>bundleItems\<close>: the client, the manifest over \<open>pathMap\<close>, the manifest item made
  from the serialised manifest (created, not signed here), and
  \<^verbatim>\<open>bundleAndSignData\<close> on the map's values followed by the manifest item.
\<close>

definition bundleItems ::
  "('jwk, 'signer, 'item, 'irys, 'manifest, 'bundle, 'tx, 'receipt) sdk
     \<Rightarrow> (string \<times> 'item) list \<Rightarrow> 'signer \<Rightarrow> error + 'bundle" where
  "bundleItems lib itemMap ephemeralSigner =
     (case getIrys lib In_bundleItems of
        Inl e \<Rightarrow> Inl e
      | Inr irys \<Rightarrow>
          (case generateManifest lib irys (pathMap lib itemMap) of
             Inl e \<Rightarrow> Inl e
           | Inr manifest \<Rightarrow>
               (case createData lib (Text (JSON_stringify lib manifest)) ephemeralSigner
                       manifest_tags of
                  Inl e \<Rightarrow> Inl e
                | Inr manifestItem \<Rightarrow>
                    bundleAndSignData lib (Map_values itemMap @ [manifestItem])
                      ephemeralSigner)))"

text \<open>The three event callbacks of \<^verbatim>\<open>uploadBundle\<close>: each writes one console line.\<close>

fun on_event :: "uploader_event \<Rightarrow> console_line" where
  "on_event (ChunkUpload i offset sz totalUploaded) =
     Log_chunk_uploaded i offset sz totalUploaded"
| "on_event (ChunkError i statusText) = Error_chunk_error i statusText"
| "on_event (Done_event i) = Log_upload_completed i"

text \<open>The two tags of the upload transaction.\<close>

definition bundle_tags :: "tag list" where
  "bundle_tags =
     [\<lparr>tag_name = ''Bundle-Format'', tag_value = ''binary''\<rparr>,
      \<lparr>tag_name = ''Bundle-Version'', tag_value = ''2.0.0''\<rparr>]"

text \<open>
  \<^verbatim>\<open>bundle.items[bundle.items.length - 1].id\<close>: on an empty array the element is
  \<^verbatim>\<open>undefined\<close> and reading its \<^verbatim>\<open>id\<close> throws.
\<close>

definition last_item_id ::
  "('jwk, 'signer, 'item, 'irys, 'manifest, 'bundle, 'tx, 'receipt) sdk
     \<Rightarrow> 'bundle \<Rightarrow> error + string" where
  "last_item_id lib bundle =
     (if items lib bundle = [] then Inl TypeError
      else Inr (item_id lib (items lib bundle ! (length (items lib bundle) - 1))))"

text \<open>
  \<^verbatim>\<open>uploadBundle\<close>: the client, the transaction over the bundle's raw bytes, its
  signature, the upload, then the two identifiers. The result is the console output
  together with the returned array or the exception.
\<close>

definition uploadBundle ::
  "('jwk, 'signer, 'item, 'irys, 'manifest, 'bundle, 'tx, 'receipt) sdk
     \<Rightarrow> 'bundle \<Rightarrow> console_line list \<times> (error + string list)" where
  "uploadBundle lib bundle =
     (case getIrys lib In_uploadBundle of
        Inl e \<Rightarrow> ([], Inl e)
      | Inr irys \<Rightarrow>
          (case createTransaction lib irys (getRaw lib bundle) bundle_tags of
             Inl e \<Rightarrow> ([], Inl e)
           | Inr tx0 \<Rightarrow>
               (case tx_sign lib tx0 of
                  Inl e \<Rightarrow> ([], Inl e)
                | Inr tx \<Rightarrow>
                    (case uploadTransaction lib irys tx of
                       (events, Inl e) \<Rightarrow> (map on_event events, Inl e)
                     | (events, Inr receipt) \<Rightarrow>
                         (case last_item_id lib bundle of
                            Inl e \<Rightarrow> (map on_event events, Inl e)
                          | Inr manifestId \<Rightarrow>
                              (map on_event events,
                               Inr [manifestId, receipt_data_id lib receipt]))))))"

text \<open>
  The body of the \<^verbatim>\<open>try\<close> block of \<^verbatim>\<open>fundAndUploadNestedBundle\<close>. The
  destructuring \<^verbatim>\<open>const [manifestId, receiptId] = ...\<close> reads the first two
  elements of what \<^verbatim>\<open>uploadBundle\<close> returned. On a shorter array JavaScript would
  bind \<^verbatim>\<open>undefined\<close>, which is no string; \<^verbatim>\<open>uploadBundle\<close> returns exactly two
  elements (lemma \<open>uploadBundle_two\<close>), so that case does not arise, and the last
  branch, which stands for it, is never taken (lemma \<open>try_body_Inr\<close>).
\<close>

definition try_body ::
  "('jwk, 'signer, 'item, 'irys, 'manifest, 'bundle, 'tx, 'receipt) sdk
     \<Rightarrow> File list \<Rightarrow> console_line list \<times> (error + string list)" where
  "try_body lib files =
     (case generateJWK lib of
        Inl e \<Rightarrow> ([], Inl e)
      | Inr jwk \<Rightarrow>
          (let ephemeralSigner = ArweaveSigner lib jwk in
           case prepareFiles lib files ephemeralSigner of
             Inl e \<Rightarrow> ([], Inl e)
           | Inr preppedFiles \<Rightarrow>
               (case bundleItems lib preppedFiles ephemeralSigner of
                  Inl e \<Rightarrow> ([], Inl e)
                | Inr bundle \<Rightarrow>
                    (case uploadBundle lib bundle of
                       (out, Inl e) \<Rightarrow> (out, Inl e)
                     | (out, Inr (manifestId # receiptId # _)) \<Rightarrow>
                         (out, Inr [manifestId, receiptId])
                     | (out, Inr _) \<Rightarrow> (out, Inl TypeError)))))"

text \<open>
  \<^verbatim>\<open>fundAndUploadNestedBundle\<close>: the \<^verbatim>\<open>try\<close> block; an exception is caught, logged
  with \<^verbatim>\<open>console.log("Error on upload:", e)\<close>, and the function returns
  \<^verbatim>\<open>["", ""]\<close>. The result is the console output and the returned array: the function
  has no other outcome.
\<close>

definition fundAndUploadNestedBundle ::
  "('jwk, 'signer, 'item, 'irys, 'manifest, 'bundle, 'tx, 'receipt) sdk
     \<Rightarrow> File list \<Rightarrow> console_line list \<times> string list" where
  "fundAndUploadNestedBundle lib files =
     (case try_body lib files of
        (out, Inr ids) \<Rightarrow> (out, ids)
      | (out, Inl e) \<Rightarrow> (out @ [Log_error_on_upload e], ['''', '''']))"

section \<open>What the claims speak about\<close>

text \<open>
  The local \<^verbatim>\<open>manifestItem\<close> of \<^verbatim>\<open>bundleItems\<close>, as a function of the item map:
  the first three steps of \<open>bundleItems\<close> (lemma \<open>bundleItems_manifestItem\<close>).
\<close>

definition manifestItem ::
  "('jwk, 'signer, 'item, 'irys, 'manifest, 'bundle, 'tx, 'receipt) sdk
     \<Rightarrow> (string \<times> 'item) list \<Rightarrow> 'signer \<Rightarrow> error + 'item" where
  "manifestItem lib itemMap ephemeralSigner =
     (case getIrys lib In_bundleItems of
        Inl e \<Rightarrow> Inl e
      | Inr irys \<Rightarrow>
          (case generateManifest lib irys (pathMap lib itemMap) of
             Inl e \<Rightarrow> Inl e
           | Inr manifest \<Rightarrow>
               createData lib (Text (JSON_stringify lib manifest)) ephemeralSigner
                 manifest_tags))"

text \<open>
  What a bundle holds is decided by arbundles, not by the module. Its
  \<^verbatim>\<open>bundleAndSignData\<close> signs every item that is not signed yet and packs the items in
  the order given, and \<^verbatim>\<open>bundle.items\<close> reads them back in that order. Statements
  about the content of a bundle assume this of the library: \<open>bundled lib s x y\<close> says
  that \<open>y\<close> is the item \<open>x\<close> as it stands in the bundle (unchanged, or as signing with
  \<open>s\<close> left it), and \<open>bundle_keeps_items\<close> that every bundle holds, position by
  position, the items it was made from.
\<close>

definition bundled ::
  "('jwk, 'signer, 'item, 'irys, 'manifest, 'bundle, 'tx, 'receipt) sdk
     \<Rightarrow> 'signer \<Rightarrow> 'item \<Rightarrow> 'item \<Rightarrow> bool" where
  "bundled lib s x y \<longleftrightarrow> y = x \<or> sign lib x s = Inr y"

definition bundle_keeps_items ::
  "('jwk, 'signer, 'item, 'irys, 'manifest, 'bundle, 'tx, 'receipt) sdk \<Rightarrow> bool" where
  "bundle_keeps_items lib \<longleftrightarrow>
     (\<forall>its s b. bundleAndSignData lib its s = Inr b
        \<longrightarrow> list_all2 (bundled lib s) its (items lib b))"

section \<open>A library instance for examples\<close>

text \<open>
  A small executable instance of the library interface, on which the module can be run:
  an item records its payload, the signer it was created for, its tags and who signed
  it; a signed item's identifier is \<open>id-\<close> followed by its payload; a bundle is its
  list of items, unsigned ones signed on bundling; a transaction records its data, its
  tags and whether it was signed, and the uploader rejects an unsigned one; the file
  promises settle in the order of the list.

  The manifest is built the way the Irys client builds it: the paths start as the empty
  object \<^verbatim>\<open>{}\<close> and every entry of the path map is stored with
  \<^verbatim>\<open>manifest.paths[k] = { id: v }\<close>. A manifest is represented by the properties of
  that object, name and identifier, in the order in which they were added (JavaScript
  lists integer-like names first; nothing below depends on the order). Assigning to a
  property of a plain JavaScript object adds or replaces the property, except for the
  name \<^verbatim>\<open>__proto__\<close>: that assignment replaces the prototype of the object and adds no
  property, so nothing is serialised for it.
\<close>

datatype stub_item =
  Stub_item (payload: data) (owner: nat) (item_tags: "tag list") (signed_by: "nat option")

fun data_text :: "data \<Rightarrow> string" where
  "data_text (Uint8Array b) = b"
| "data_text (Text t) = t"

definition stub_id :: "stub_item \<Rightarrow> string" where
  "stub_id it = (case signed_by it of None \<Rightarrow> ''unsigned'' | Some s \<Rightarrow> ''id-'' @ data_text (payload it))"

definition stub_sign :: "stub_item \<Rightarrow> nat \<Rightarrow> stub_item" where
  "stub_sign it s = Stub_item (payload it) (owner it) (item_tags it) (Some s)"

definition stub_bundle :: "stub_item list \<Rightarrow> nat \<Rightarrow> stub_item list" where
  "stub_bundle its s = map (\<lambda>it. if signed_by it = None then stub_sign it s else it) its"

definition object_set :: "string \<Rightarrow> 'v \<Rightarrow> (string \<times> 'v) list \<Rightarrow> (string \<times> 'v) list" where
  "object_set k v obj = (if k = ''__proto__'' then obj else Map_set k v obj)"

definition stub_manifest :: "(string \<times> string) list \<Rightarrow> (string \<times> string) list" where
  "stub_manifest items_config = foldl (\<lambda>obj (k, v). object_set k v obj) [] items_config"

definition stub_json :: "(string \<times> string) list \<Rightarrow> string" where
  "stub_json paths = concat (map (\<lambda>(path, i). path @ ''='' @ i @ '';'') paths)"

definition stub_upload ::
  "bytes \<times> tag list \<times> bool \<Rightarrow> uploader_event list \<times> (error + string)" where
  "stub_upload tx =
     (case tx of (raw, tags, is_signed) \<Rightarrow>
        if is_signed
        then ([ChunkUpload 0 0 (length raw) (length raw), Done_event ''tx-1''], Inr ''tx-1'')
        else ([ChunkError 0 ''Unauthorized''], Inl (SdkError ''upload rejected'')))"

definition stub_sdk ::
  "(nat, nat, stub_item, unit, (string \<times> string) list, stub_item list,
    bytes \<times> tag list \<times> bool, string) sdk" where
  "stub_sdk =
     \<lparr>generateJWK = Inr 7,
      ArweaveSigner = (\<lambda>jwk. jwk),
      createData = (\<lambda>d s tags. Inr (Stub_item d s tags None)),
      sign = (\<lambda>it s. Inr (stub_sign it s)),
      item_id = stub_id,
      getIrys = (\<lambda>site. Inr ()),
      generateManifest = (\<lambda>irys items_config. Inr (stub_manifest items_config)),
      JSON_stringify = stub_json,
      bundleAndSignData = (\<lambda>its s. Inr (stub_bundle its s)),
      items = (\<lambda>b. b),
      getRaw = (\<lambda>b. concat (map (\<lambda>it. data_text (payload it)) b)),
      createTransaction = (\<lambda>irys raw tags. Inr (raw, tags, False)),
      tx_sign = (\<lambda>tx. case tx of (raw, tags, is_signed) \<Rightarrow> Inr (raw, tags, True)),
      uploadTransaction = (\<lambda>irys tx. stub_upload tx),
      receipt_data_id = (\<lambda>receipt. receipt),
      settled_at = (\<lambda>i. i)\<rparr>"

text \<open>
  Files: two that share the name \<open>a.txt\<close>, one more with a name of its own, one that
  cannot be read, and two that share the name \<^verbatim>\<open>__proto__\<close>.
\<close>

definition file_a1 :: File where
  "file_a1 = \<lparr>file_name = ''a.txt'', file_type = ''text/plain'', file_arrayBuffer = Inr ''one''\<rparr>"

definition file_a2 :: File where
  "file_a2 = \<lparr>file_name = ''a.txt'', file_type = ''text/plain'', file_arrayBuffer = Inr ''two''\<rparr>"

definition file_b :: File where
  "file_b = \<lparr>file_name = ''b.png'', file_type = ''image/png'', file_arrayBuffer = Inr ''img''\<rparr>"

definition file_c :: File where
  "file_c =
     \<lparr>file_name = ''c.bin'', file_type = ''application/octet-stream'',
      file_arrayBuffer = Inl (SdkError ''read failed'')\<rparr>"



definition item_of :: "string \<Rightarrow> string \<Rightarrow> stub_item" where
  "item_of buf mime =
     Stub_item (Uint8Array buf) 7 [\<lparr>tag_name = ''Content-Type'', tag_value = mime\<rparr>] (Some 7)"

text \<open>
  Variants of the instance: one whose client is obtained in \<^verbatim>\<open>bundleItems\<close> but no
  longer in \<^verbatim>\<open>uploadBundle\<close> (the second \<^verbatim>\<open>getIrys()\<close> throws), one whose
  transaction signature is refused, and one that cannot sign the item with the payload
  \<open>one\<close> and in which the file at position 1 settles before the file at position 0.
\<close>

definition offline_sdk ::
  "(nat, nat, stub_item, unit, (string \<times> string) list, stub_item list,
    bytes \<times> tag list \<times> bool, string) sdk" where
  "offline_sdk =
     stub_sdk\<lparr>getIrys :=
       (\<lambda>site. case site of
                  In_bundleItems \<Rightarrow> Inr ()
                | In_uploadBundle \<Rightarrow> Inl (SdkError ''no wallet''))\<rparr>"

definition rejecting_sdk ::
  "(nat, nat, stub_item, unit, (string \<times> string) list, stub_item list,
    bytes \<times> tag list \<times> bool, string) sdk" where
  "rejecting_sdk = stub_sdk\<lparr>tx_sign := (\<lambda>tx. Inl (SdkError ''user rejected''))\<rparr>"

definition failing_sign_sdk ::
  "(nat, nat, stub_item, unit, (string \<times> string) list, stub_item list,
    bytes \<times> tag list \<times> bool, string) sdk" where
  "failing_sign_sdk =
     stub_sdk\<lparr>sign :=
                (\<lambda>it s. if payload it = Uint8Array ''one''
                         then Inl (SdkError ''sign failed'') else Inr (stub_sign it s)),
              settled_at := (\<lambda>i. if i = 0 then 2 else 1)\<rparr>"

section \<open>Properties\<close>

subsection \<open>Maps\<close>

lemma map_of_Map_set: "map_of (Map_set k v m) = (map_of m)(k \<mapsto> v)"
  by (induction m) (auto simp: fun_eq_iff)

lemma keys_Map_set:
  "map fst (Map_set k v m) = (if k \<in> fst ` set m then map fst m else map fst m @ [k])"
  by (induction m) auto

lemma Map_set_fresh: "k \<notin> fst ` set m \<Longrightarrow> Map_set k v m = m @ [(k, v)]"
  by (induction m) auto

lemma distinct_Map_set: "distinct (map fst m) \<Longrightarrow> distinct (map fst (Map_set k v m))"
  by (simp add: keys_Map_set)

lemma key_set_Map_set: "fst ` set (Map_set k v m) = insert k (fst ` set m)"
  by (induction m) auto

lemma Map_set_all_Nil: "Map_set_all m [] = m"
  by (simp add: Map_set_all_def)

lemma Map_set_all_Cons: "Map_set_all m (p # ps) = Map_set_all (Map_set (fst p) (snd p) m) ps"
  by (simp add: Map_set_all_def split: prod.splits)

lemma distinct_Map_set_all:
  "distinct (map fst m) \<Longrightarrow> distinct (map fst (Map_set_all m ps))"
  by (induction ps arbitrary: m) (auto simp: Map_set_all_Nil Map_set_all_Cons distinct_Map_set)

lemma key_set_Map_set_all: "fst ` set (Map_set_all m ps) = fst ` set m \<union> fst ` set ps"
  by (induction ps arbitrary: m) (auto simp: Map_set_all_Nil Map_set_all_Cons key_set_Map_set)

lemma map_of_Map_set_all: "map_of (Map_set_all m ps) = map_of m ++ map_of (rev ps)"
proof (induction ps arbitrary: m)
  case Nil
  then show ?case by (simp add: Map_set_all_Nil)
next
  case (Cons p ps)
  show ?case
    by (cases p)
      (simp add: Map_set_all_Cons Cons map_of_Map_set map_add_def fun_eq_iff
        split: option.splits)
qed

lemma Map_set_all_fresh:
  "distinct (map fst ps) \<Longrightarrow> fst ` set m \<inter> fst ` set ps = {} \<Longrightarrow> Map_set_all m ps = m @ ps"
proof (induction ps arbitrary: m)
  case Nil
  then show ?case by (simp add: Map_set_all_Nil)
next
  case (Cons p ps)
  then show ?case by (cases p) (auto simp: Map_set_all_Cons Map_set_fresh)
qed

lemma distinct_new_Map: "distinct (map fst (new_Map ps))"
  by (simp add: new_Map_def distinct_Map_set_all)

lemma key_set_new_Map: "fst ` set (new_Map ps) = fst ` set ps"
  by (simp add: new_Map_def key_set_Map_set_all)

lemma map_of_new_Map: "map_of (new_Map ps) = map_of (rev ps)"
  by (simp add: new_Map_def map_of_Map_set_all)

lemma new_Map_distinct: "distinct (map fst ps) \<Longrightarrow> new_Map ps = ps"
  by (simp add: new_Map_def Map_set_all_fresh)

lemma length_new_Map: "length (new_Map ps) = card (fst ` set ps)"
proof -
  have "length (new_Map ps) = length (map fst (new_Map ps))" by simp
  also have "\<dots> = card (set (map fst (new_Map ps)))"
    by (rule distinct_card [symmetric]) (rule distinct_new_Map)
  also have "\<dots> = card (fst ` set ps)" by (simp add: key_set_new_Map)
  finally show ?thesis .
qed

lemma length_new_Map_less:
  assumes "\<not> distinct (map fst ps)"
  shows "length (new_Map ps) < length ps"
proof -
  have "card (set (map fst ps)) \<le> length (map fst ps)" by (rule card_length)
  moreover have "card (set (map fst ps)) \<noteq> length (map fst ps)"
    using assms card_distinct by blast
  ultimately show ?thesis by (simp add: length_new_Map)
qed

lemma map_of_rev_last:
  "i < length ps \<Longrightarrow> \<forall>j. i < j \<and> j < length ps \<longrightarrow> fst (ps ! j) \<noteq> fst (ps ! i)
     \<Longrightarrow> map_of (rev ps) (fst (ps ! i)) = Some (snd (ps ! i))"
proof (induction ps arbitrary: i)
  case Nil
  then show ?case by simp
next
  case (Cons p ps)
  show ?case
  proof (cases i)
    case 0
    have "fst p \<notin> fst ` set ps"
    proof
      assume "fst p \<in> fst ` set ps"
      then obtain q where "q \<in> set ps" "fst q = fst p" by auto
      then obtain j where "j < length ps" "ps ! j = q" by (auto simp: in_set_conv_nth)
      with Cons.prems(2) 0 \<open>fst q = fst p\<close> show False
        by (auto dest: spec [of _ "Suc j"])
    qed
    then have "map_of (rev ps) (fst p) = None"
      by (simp add: map_of_eq_None_iff)
    with 0 show ?thesis by (simp add: map_add_def)
  next
    case (Suc i')
    have "map_of (rev ps) (fst (ps ! i')) = Some (snd (ps ! i'))"
    proof (rule Cons.IH)
      show "i' < length ps" using Cons.prems(1) Suc by simp
      show "\<forall>j. i' < j \<and> j < length ps \<longrightarrow> fst (ps ! j) \<noteq> fst (ps ! i')"
        using Cons.prems(2) Suc by (auto dest: spec [of _ "Suc j" for j])
    qed
    with Suc show ?thesis by (simp add: map_add_def)
  qed
qed

lemma filter_key_distinct:
  "distinct (map fst m) \<Longrightarrow> map_of m k = Some v \<Longrightarrow> filter (\<lambda>p. fst p = k) m = [(k, v)]"
proof (induction m)
  case Nil
  then show ?case by simp
next
  case (Cons p m)
  show ?case
  proof (cases "fst p = k")
    case True
    with Cons.prems have "p = (k, v)" by (cases p) simp
    moreover have "k \<notin> fst ` set m"
      using Cons.prems(1) True by auto
    then have "filter (\<lambda>p. fst p = k) m = []"
      by (auto simp: filter_empty_conv)
    ultimately show ?thesis by simp
  next
    case False
    with Cons show ?thesis by (cases p) auto
  qed
qed

subsection \<open>Promise.all\<close>

lemma fulfilled_map_Inr: "fulfilled (map Inr xs) = xs"
  by (induction xs) auto

lemma rejections_map_Inr: "rejections i (map Inr xs) = []"
  by (induction xs arbitrary: i) auto

lemma rejections_Nil: "rejections i ps = [] \<Longrightarrow> ps = map Inr (fulfilled ps)"
  by (induction ps arbitrary: i) (auto split: sum.splits)

lemma Promise_all_Inr: "Promise_all t rs = Inr xs \<longleftrightarrow> rs = map Inr xs"
proof
  assume "Promise_all t rs = Inr xs"
  then have "rejections 0 rs = []" and xs: "xs = fulfilled rs"
    by (auto simp: Promise_all_def split: list.splits)
  then have "rs = map Inr (fulfilled rs)" by (simp add: rejections_Nil)
  with xs show "rs = map Inr xs" by simp
next
  assume "rs = map Inr xs"
  then show "Promise_all t rs = Inr xs"
    by (simp add: Promise_all_def rejections_map_Inr fulfilled_map_Inr)
qed

lemma rejections_mem:
  "(j, e) \<in> set (rejections i ps) \<longleftrightarrow> i \<le> j \<and> j - i < length ps \<and> ps ! (j - i) = Inl e"
proof (induction ps arbitrary: i)
  case Nil
  then show ?case by simp
next
  case (Cons p ps)
  have step: "(j, e) \<in> set (rejections (Suc i) ps)
      \<longleftrightarrow> Suc i \<le> j \<and> j - Suc i < length ps \<and> ps ! (j - Suc i) = Inl e"
    by (rule Cons.IH)
  show ?case
  proof (cases "j = i")
    case True
    with step show ?thesis by (cases p) auto
  next
    case False
    have "i \<le> j \<and> j - i < length (p # ps) \<and> (p # ps) ! (j - i) = Inl e
        \<longleftrightarrow> Suc i \<le> j \<and> j - Suc i < length ps \<and> ps ! (j - Suc i) = Inl e"
    proof (cases "i < j")
      case True
      then obtain d where d: "j - i = Suc d" "j - Suc i = d"
        by (cases "j - i") auto
      with True show ?thesis by auto
    next
      case False
      with \<open>j \<noteq> i\<close> show ?thesis by auto
    qed
    with False show ?thesis by (cases p) (auto simp: step)
  qed
qed

lemma rejections_0_mem:
  "(j, e) \<in> set (rejections 0 ps) \<longleftrightarrow> j < length ps \<and> ps ! j = Inl e"
  by (simp add: rejections_mem)

lemma first_in_time_mem: "first_in_time t r rs \<in> set (r # rs)"
proof (induction rs arbitrary: r)
  case Nil
  then show ?case by simp
next
  case (Cons r' rs)
  from Cons.IH [of "if t (fst r') < t (fst r) then r' else r"] show ?case
    by (auto split: if_splits)
qed

lemma first_in_time_least:
  "r' \<in> set (r # rs) \<Longrightarrow> t (fst (first_in_time t r rs)) \<le> t (fst r')"
proof (induction rs arbitrary: r r')
  case Nil
  then show ?case by simp
next
  case (Cons c rs)
  let ?best = "if t (fst c) < t (fst r) then c else r"
  have best: "t (fst ?best) \<le> t (fst r)" "t (fst ?best) \<le> t (fst c)"
    by auto
  have "t (fst (first_in_time t ?best rs)) \<le> t (fst ?best)"
    by (rule Cons.IH) simp
  moreover have "t (fst (first_in_time t ?best rs)) \<le> t (fst r')" if "r' \<in> set rs"
    by (rule Cons.IH) (use that in simp)
  ultimately show ?case
    using Cons.prems best by (auto simp del: if_split intro: order_trans)
qed

lemma first_in_time_strict:
  assumes "r0 \<in> set (r # rs)"
    and "\<forall>r' \<in> set (r # rs). r' \<noteq> r0 \<longrightarrow> t (fst r0) < t (fst r')"
  shows "first_in_time t r rs = r0"
proof (rule ccontr)
  assume neq: "first_in_time t r rs \<noteq> r0"
  have "first_in_time t r rs \<in> set (r # rs)" by (rule first_in_time_mem)
  with assms(2) neq have "t (fst r0) < t (fst (first_in_time t r rs))" by blast
  moreover have "t (fst (first_in_time t r rs)) \<le> t (fst r0)"
    using assms(1) by (rule first_in_time_least)
  ultimately show False by simp
qed

lemma Promise_all_Inl:
  assumes "Promise_all t ps = Inl e"
  shows "\<exists>i<length ps. ps ! i = Inl e
           \<and> (\<forall>j<length ps. \<forall>e'. ps ! j = Inl e' \<longrightarrow> t i \<le> t j)"
proof -
  from assms obtain r rs where
    rej: "rejections 0 ps = r # rs" and e: "e = snd (first_in_time t r rs)"
    by (auto simp: Promise_all_def split: list.splits)
  let ?w = "first_in_time t r rs"
  have "?w \<in> set (rejections 0 ps)"
    unfolding rej by (rule first_in_time_mem)
  then have "(fst ?w, e) \<in> set (rejections 0 ps)" by (simp add: e)
  then have w: "fst ?w < length ps" "ps ! fst ?w = Inl e"
    by (simp_all add: rejections_0_mem)
  have "t (fst ?w) \<le> t j" if "j < length ps" "ps ! j = Inl e'" for j e'
  proof -
    from that have "(j, e') \<in> set (r # rs)"
      unfolding rej [symmetric] by (simp add: rejections_0_mem)
    from first_in_time_least [OF this] show ?thesis by simp
  qed
  with w show ?thesis by blast
qed

lemma Promise_all_first:
  assumes "i < length ps" and "ps ! i = Inl e"
    and "\<forall>j<length ps. j \<noteq> i \<longrightarrow> (\<exists>x. ps ! j = Inr x) \<or> t i < t j"
  shows "Promise_all t ps = Inl e"
proof -
  from assms(1,2) have mem: "(i, e) \<in> set (rejections 0 ps)"
    by (simp add: rejections_0_mem)
  then obtain r rs where rej: "rejections 0 ps = r # rs"
    by (cases "rejections 0 ps") auto
  have "t (fst (i, e)) < t (fst r')" if "r' \<in> set (r # rs)" "r' \<noteq> (i, e)" for r'
  proof -
    obtain j e' where r': "r' = (j, e')" by (cases r')
    with that(1) have j: "j < length ps" "ps ! j = Inl e'"
      unfolding rej [symmetric] by (simp_all add: rejections_0_mem)
    with that(2) r' assms(2) have "j \<noteq> i" by auto
    with assms(3) j r' show ?thesis by auto
  qed
  then have "first_in_time t r rs = (i, e)"
    using mem unfolding rej by (intro first_in_time_strict) auto
  then show ?thesis by (simp add: Promise_all_def rej)
qed

lemma Promise_all_fails: "Inl e \<in> set ps \<Longrightarrow> \<exists>e'. Promise_all t ps = Inl e'"
proof -
  assume "Inl e \<in> set ps"
  then obtain i where "i < length ps" "ps ! i = Inl e" by (auto simp: in_set_conv_nth)
  then have "(i, e) \<in> set (rejections 0 ps)" by (simp add: rejections_0_mem)
  then obtain r rs where "rejections 0 ps = r # rs" by (cases "rejections 0 ps") auto
  then show ?thesis by (simp add: Promise_all_def)
qed

subsection \<open>prepareFile and prepareFiles\<close>

lemma prepareFile_Inr:
  "prepareFile lib f s = Inr item \<longleftrightarrow>
     (\<exists>buf created.
        file_arrayBuffer f = Inr buf
      \<and> createData lib (Uint8Array buf) s
          [\<lparr>tag_name = ''Content-Type'', tag_value = file_type f\<rparr>] = Inr created
      \<and> sign lib created s = Inr item)"
  by (auto simp: prepareFile_def split: sum.splits)

lemma prepareFile_Inl:
  "prepareFile lib f s = Inl e \<longleftrightarrow>
     (file_arrayBuffer f = Inl e
      \<or> (\<exists>buf. file_arrayBuffer f = Inr buf
            \<and> (createData lib (Uint8Array buf) s
                  [\<lparr>tag_name = ''Content-Type'', tag_value = file_type f\<rparr>] = Inl e
               \<or> (\<exists>created.
                     createData lib (Uint8Array buf) s
                       [\<lparr>tag_name = ''Content-Type'', tag_value = file_type f\<rparr>]
                       = Inr created
                   \<and> sign lib created s = Inl e))))"
  by (auto simp: prepareFile_def split: sum.splits)

lemma prepareFiles_throws:
  assumes "f \<in> set files" and "prepareFile lib f s = Inl e"
  shows "\<exists>e'. prepareFiles lib files s = Inl e'"
proof -
  let ?g = "\<lambda>file. case prepareFile lib file s of
                      Inl e \<Rightarrow> Inl e | Inr item \<Rightarrow> Inr (file_name file, item)"
  from assms have "Inl e \<in> set (map ?g files)" by force
  then obtain e' where "Promise_all (settled_at lib) (map ?g files) = Inl e'"
    by (blast dest: Promise_all_fails)
  then show ?thesis by (simp add: prepareFiles_def)
qed

lemma prepareFiles_first:
  assumes "i < length files" and "prepareFile lib (files ! i) s = Inl e"
    and "\<forall>j<length files. j \<noteq> i \<longrightarrow>
           (\<exists>item. prepareFile lib (files ! j) s = Inr item)
         \<or> settled_at lib i < settled_at lib j"
  shows "prepareFiles lib files s = Inl e"
proof -
  let ?g = "\<lambda>file. case prepareFile lib file s of
                      Inl e \<Rightarrow> Inl e | Inr item \<Rightarrow> Inr (file_name file, item)"
  have "Promise_all (settled_at lib) (map ?g files) = Inl e"
  proof (rule Promise_all_first)
    show "i < length (map ?g files)" using assms(1) by simp
    show "map ?g files ! i = Inl e" using assms(1,2) by simp
    show "\<forall>j<length (map ?g files). j \<noteq> i \<longrightarrow>
            (\<exists>x. map ?g files ! j = Inr x) \<or> settled_at lib i < settled_at lib j"
    proof (intro allI impI)
      fix j
      assume j: "j < length (map ?g files)" "j \<noteq> i"
      with assms(3) have "(\<exists>item. prepareFile lib (files ! j) s = Inr item)
         \<or> settled_at lib i < settled_at lib j"
        by simp
      with j show "(\<exists>x. map ?g files ! j = Inr x) \<or> settled_at lib i < settled_at lib j"
        by auto
    qed
  qed
  then show ?thesis by (simp add: prepareFiles_def)
qed

lemma prepareFiles_Inl:
  assumes "prepareFiles lib files s = Inl e"
  shows "\<exists>i<length files. prepareFile lib (files ! i) s = Inl e
           \<and> (\<forall>j<length files. \<forall>e'. prepareFile lib (files ! j) s = Inl e'
                  \<longrightarrow> settled_at lib i \<le> settled_at lib j)"
proof -
  let ?g = "\<lambda>file. case prepareFile lib file s of
                      Inl e \<Rightarrow> Inl e | Inr item \<Rightarrow> Inr (file_name file, item)"
  from assms have "Promise_all (settled_at lib) (map ?g files) = Inl e"
    by (auto simp: prepareFiles_def split: sum.splits)
  from Promise_all_Inl [OF this] obtain i where
    i: "i < length files" "map ?g files ! i = Inl e" and
    least: "\<forall>j<length (map ?g files). \<forall>e'. map ?g files ! j = Inl e'
              \<longrightarrow> settled_at lib i \<le> settled_at lib j"
    by auto
  from i have failed: "prepareFile lib (files ! i) s = Inl e"
    by (cases "prepareFile lib (files ! i) s") auto
  have "settled_at lib i \<le> settled_at lib j"
    if "j < length files" "prepareFile lib (files ! j) s = Inl e'" for j e'
  proof -
    from that have "map ?g files ! j = Inl e'" by simp
    with least that(1) show ?thesis by simp
  qed
  with i(1) failed show ?thesis by blast
qed

lemma prepareFiles_Inr:
  assumes "prepareFiles lib files s = Inr itemMap"
  shows "\<exists>its. length its = length files
           \<and> (\<forall>i<length files. prepareFile lib (files ! i) s = Inr (its ! i))
           \<and> itemMap = new_Map (zip (map file_name files) its)"
proof -
  let ?g = "\<lambda>file. case prepareFile lib file s of
                      Inl e \<Rightarrow> Inl e | Inr item \<Rightarrow> Inr (file_name file, item)"
  from assms obtain entries where
    all: "Promise_all (settled_at lib) (map ?g files) = Inr entries" and m: "itemMap = new_Map entries"
    by (auto simp: prepareFiles_def split: sum.splits)
  from all have eq: "map ?g files = map Inr entries" by (simp add: Promise_all_Inr)
  then have "length (map ?g files) = length (map Inr entries)" by simp
  then have len: "length entries = length files" by simp
  have each: "prepareFile lib (files ! i) s = Inr (snd (entries ! i))
              \<and> fst (entries ! i) = file_name (files ! i)" if "i < length files" for i
  proof -
    from eq have "map ?g files ! i = map Inr entries ! i" by simp
    with that len have "?g (files ! i) = Inr (entries ! i)" by simp
    then show ?thesis
      by (cases "prepareFile lib (files ! i) s") (auto simp: prod_eq_iff dest: sym)
  qed
  have "entries = zip (map file_name files) (map snd entries)"
  proof (rule nth_equalityI)
    show "length entries = length (zip (map file_name files) (map snd entries))"
      using len by simp
    show "entries ! i = zip (map file_name files) (map snd entries) ! i"
      if "i < length entries" for i
      using that len each [of i] by (simp add: prod_eq_iff)
  qed
  with m have "itemMap = new_Map (zip (map file_name files) (map snd entries))" by simp
  moreover have "\<forall>i<length files. prepareFile lib (files ! i) s = Inr (map snd entries ! i)"
    using len each by simp
  ultimately show ?thesis
    using len by (intro exI [of _ "map snd entries"]) simp
qed

subsection \<open>bundleItems\<close>

lemma bundleItems_manifestItem:
  "bundleItems lib itemMap s =
     (case manifestItem lib itemMap s of
        Inl e \<Rightarrow> Inl e
      | Inr m \<Rightarrow> bundleAndSignData lib (Map_values itemMap @ [m]) s)"
  by (simp add: bundleItems_def manifestItem_def split: sum.splits)

lemma bundleItems_Inr:
  "bundleItems lib itemMap s = Inr bundle \<longleftrightarrow>
     (\<exists>m. manifestItem lib itemMap s = Inr m
        \<and> bundleAndSignData lib (Map_values itemMap @ [m]) s = Inr bundle)"
  by (simp add: bundleItems_manifestItem split: sum.splits)

lemma pathMap_distinct:
  assumes "distinct (map fst itemMap)"
  shows "pathMap lib itemMap = map (\<lambda>(path, item). (path, item_id lib item)) itemMap"
proof -
  have "map fst (map (\<lambda>(path, item). (path, item_id lib item)) itemMap) = map fst itemMap"
    by (simp add: comp_def case_prod_unfold)
  with assms have "distinct (map fst (map (\<lambda>(path, item). (path, item_id lib item)) itemMap))"
    by (simp only:)
  then show ?thesis
    unfolding pathMap_def by (rule new_Map_distinct)
qed

lemma pathMap_lookup:
  assumes "distinct (map fst itemMap)"
  shows "map_of (pathMap lib itemMap) path = map_option (item_id lib) (map_of itemMap path)"
  by (simp add: pathMap_distinct [OF assms] map_of_map)

lemma list_all2_snoc1:
  assumes "list_all2 P (xs @ [x]) zs"
  shows "\<exists>us y. zs = us @ [y] \<and> list_all2 P xs us \<and> P x y"
proof -
  from assms obtain us vs where
    zs: "zs = us @ vs" and us: "list_all2 P xs us" and vs: "list_all2 P [x] vs"
    by (auto simp: list_all2_append1)
  from vs obtain y where "vs = [y]" "P x y" by (auto simp: list_all2_Cons1)
  with zs us show ?thesis by blast
qed

lemma bundle_shape:
  assumes "bundle_keeps_items lib"
    and "bundleAndSignData lib (xs @ [m]) s = Inr bundle"
  shows "\<exists>us m'. items lib bundle = us @ [m'] \<and> list_all2 (bundled lib s) xs us
           \<and> bundled lib s m m'"
proof -
  from assms have "list_all2 (bundled lib s) (xs @ [m]) (items lib bundle)"
    by (simp add: bundle_keeps_items_def)
  then show ?thesis by (rule list_all2_snoc1)
qed

subsection \<open>uploadBundle\<close>

lemma last_item_id_snoc:
  "items lib bundle = us @ [m'] \<Longrightarrow> last_item_id lib bundle = Inr (item_id lib m')"
  by (simp add: last_item_id_def nth_append)

lemma uploadBundle_Inr:
  "uploadBundle lib bundle = (out, Inr ids) \<longleftrightarrow>
     (\<exists>irys tx0 tx events receipt manifestId.
        getIrys lib In_uploadBundle = Inr irys
      \<and> createTransaction lib irys (getRaw lib bundle) bundle_tags = Inr tx0
      \<and> tx_sign lib tx0 = Inr tx
      \<and> uploadTransaction lib irys tx = (events, Inr receipt)
      \<and> last_item_id lib bundle = Inr manifestId
      \<and> out = map on_event events
      \<and> ids = [manifestId, receipt_data_id lib receipt])"
  by (auto simp: uploadBundle_def split: sum.splits prod.splits)

lemma uploadBundle_two: "uploadBundle lib bundle = (out, Inr ids) \<Longrightarrow> length ids = 2"
  by (auto simp: uploadBundle_Inr)

subsection \<open>The try block\<close>

lemma try_body_Inr:
  "try_body lib files = (out, Inr ids) \<longleftrightarrow>
     (\<exists>jwk preppedFiles bundle.
        generateJWK lib = Inr jwk
      \<and> prepareFiles lib files (ArweaveSigner lib jwk) = Inr preppedFiles
      \<and> bundleItems lib preppedFiles (ArweaveSigner lib jwk) = Inr bundle
      \<and> uploadBundle lib bundle = (out, Inr ids))"
proof -
  have two: "(case ids' of manifestId # receiptId # _ \<Rightarrow> (out', Inr [manifestId, receiptId])
              | _ \<Rightarrow> (out', Inl TypeError)) = (out', Inr ids')"
    if "uploadBundle lib b = (out', Inr ids')" for b out' ids'
    using uploadBundle_two [OF that] by (auto split: list.splits)
  show ?thesis
    apply (simp add: try_body_def Let_def split: sum.splits prod.splits)
    apply (auto simp: two split: list.splits)
    done
qed

subsection \<open>The library instance keeps the items of a bundle\<close>

lemma stub_keeps_items: "bundle_keeps_items stub_sdk"
  by (simp add: bundle_keeps_items_def stub_sdk_def stub_bundle_def bundled_def
      list_all2_map2 list_all2_same)

subsection \<open>The bundle and its manifest\<close>

text \<open>
  C3. When \<open>bundleItems\<close> returns a bundle, it is the one bundle that
  \<open>bundleAndSignData\<close> made, with the ephemeral signer, from exactly the values of the
  item map followed by the one manifest item. If the library keeps the items of a bundle
  (\<open>bundle_keeps_items\<close>), the items of the bundle are, position by position, these
  items: one more than the map has entries, none dropped and none added.
\<close>

theorem bundleItems_bundle_content:
  assumes "bundleItems lib itemMap s = Inr bundle"
  shows "\<exists>m. manifestItem lib itemMap s = Inr m
           \<and> bundleAndSignData lib (Map_values itemMap @ [m]) s = Inr bundle
           \<and> (bundle_keeps_items lib \<longrightarrow>
                length (items lib bundle) = Suc (length itemMap)
              \<and> list_all2 (bundled lib s) (Map_values itemMap @ [m]) (items lib bundle))"
proof -
  from assms obtain m where
    m: "manifestItem lib itemMap s = Inr m" and
    b: "bundleAndSignData lib (Map_values itemMap @ [m]) s = Inr bundle"
    by (auto simp: bundleItems_Inr)
  have "length (items lib bundle) = Suc (length itemMap)
      \<and> list_all2 (bundled lib s) (Map_values itemMap @ [m]) (items lib bundle)"
    if "bundle_keeps_items lib"
  proof -
    from that b have all: "list_all2 (bundled lib s) (Map_values itemMap @ [m]) (items lib bundle)"
      by (simp add: bundle_keeps_items_def)
    then have "length (Map_values itemMap @ [m]) = length (items lib bundle)"
      by (rule list_all2_lengthD)
    with all show ?thesis by (simp add: Map_values_def)
  qed
  with m b show ?thesis by blast
qed

lemma stub_bundleItems_b:
  "bundleItems stub_sdk [(''b.png'', item_of ''img'' ''image/png'')] 7
     = Inr [item_of ''img'' ''image/png'',
            Stub_item (Text ''b.png=id-img;'') 7 manifest_tags (Some 7)]"
  by (simp add: bundleItems_def stub_sdk_def pathMap_def new_Map_def Map_set_all_def
      Map_values_def stub_bundle_def stub_sign_def stub_json_def stub_manifest_def object_set_def stub_id_def item_of_def)

theorem bundleItems_bundle_content_witness:
  "bundleItems stub_sdk [(''b.png'', item_of ''img'' ''image/png'')] 7
     = Inr [item_of ''img'' ''image/png'',
            Stub_item (Text ''b.png=id-img;'') 7 manifest_tags (Some 7)]
   \<and> bundle_keeps_items stub_sdk
   \<and> (\<exists>m. manifestItem stub_sdk [(''b.png'', item_of ''img'' ''image/png'')] 7 = Inr m
        \<and> length (items stub_sdk [item_of ''img'' ''image/png'',
              Stub_item (Text ''b.png=id-img;'') 7 manifest_tags (Some 7)])
            = Suc (length [(''b.png'', item_of ''img'' ''image/png'')])
        \<and> list_all2 (bundled stub_sdk 7)
              (Map_values [(''b.png'', item_of ''img'' ''image/png'')] @ [m])
              (items stub_sdk [item_of ''img'' ''image/png'',
                 Stub_item (Text ''b.png=id-img;'') 7 manifest_tags (Some 7)]))"
  using bundleItems_bundle_content [OF stub_bundleItems_b] stub_keeps_items stub_bundleItems_b
  by blast

text \<open>
  C7. If the library keeps the items of a bundle, then in every bundle that
  \<open>bundleItems\<close> returns the manifest item stands last, at the position after all the
  file items (which stand at the positions of their map entries), so
  \<^verbatim>\<open>bundle.items[bundle.items.length - 1].id\<close> is the identifier of the manifest item,
  and that is the first of the two identifiers \<open>uploadBundle\<close> returns.
\<close>

theorem manifest_item_last:
  assumes "bundle_keeps_items lib" and "bundleItems lib itemMap s = Inr bundle"
  shows "\<exists>m m'. manifestItem lib itemMap s = Inr m
           \<and> bundled lib s m m'
           \<and> length (items lib bundle) = Suc (length itemMap)
           \<and> items lib bundle ! length itemMap = m'
           \<and> last (items lib bundle) = m'
           \<and> (\<forall>i<length itemMap. bundled lib s (snd (itemMap ! i)) (items lib bundle ! i))
           \<and> last_item_id lib bundle = Inr (item_id lib m')
           \<and> (\<forall>out ids. uploadBundle lib bundle = (out, Inr ids) \<longrightarrow>
                 length ids = 2 \<and> ids ! 0 = item_id lib m')"
proof -
  from assms(2) obtain m where
    m: "manifestItem lib itemMap s = Inr m" and
    b: "bundleAndSignData lib (Map_values itemMap @ [m]) s = Inr bundle"
    by (auto simp: bundleItems_Inr)
  from bundle_shape [OF assms(1) b] obtain us m' where
    shape: "items lib bundle = us @ [m']" and
    us: "list_all2 (bundled lib s) (Map_values itemMap) us" and
    m': "bundled lib s m m'"
    by blast
  from us have len: "length us = length itemMap"
    by (auto simp: Map_values_def dest: list_all2_lengthD)
  have files: "bundled lib s (snd (itemMap ! i)) (items lib bundle ! i)"
    if "i < length itemMap" for i
    using list_all2_nthD [OF us, of i] that len by (simp add: Map_values_def shape nth_append)
  have lid: "last_item_id lib bundle = Inr (item_id lib m')"
    using shape by (rule last_item_id_snoc)
  have ids: "length ids = 2 \<and> ids ! 0 = item_id lib m'"
    if "uploadBundle lib bundle = (out, Inr ids)" for out ids
    using that lid by (auto simp: uploadBundle_Inr)
  from m m' shape len files lid ids show ?thesis
    by (intro exI [of _ m] exI [of _ m']) (simp add: nth_append)
qed

lemma stub_uploadBundle_b:
  "uploadBundle stub_sdk [item_of ''img'' ''image/png'',
       Stub_item (Text ''b.png=id-img;'') 7 manifest_tags (Some 7)]
     = ([Log_chunk_uploaded 0 0 16 16, Log_upload_completed ''tx-1''],
        Inr [''id-b.png=id-img;'', ''tx-1''])"
  by (simp add: uploadBundle_def stub_sdk_def stub_upload_def last_item_id_def stub_id_def
      item_of_def bundle_tags_def)

theorem manifest_item_last_witness:
  "bundle_keeps_items stub_sdk
   \<and> bundleItems stub_sdk [(''b.png'', item_of ''img'' ''image/png'')] 7
       = Inr [item_of ''img'' ''image/png'',
              Stub_item (Text ''b.png=id-img;'') 7 manifest_tags (Some 7)]
   \<and> uploadBundle stub_sdk [item_of ''img'' ''image/png'',
         Stub_item (Text ''b.png=id-img;'') 7 manifest_tags (Some 7)]
       = ([Log_chunk_uploaded 0 0 16 16, Log_upload_completed ''tx-1''],
          Inr [''id-b.png=id-img;'', ''tx-1''])
   \<and> (\<exists>m'. last [item_of ''img'' ''image/png'',
                Stub_item (Text ''b.png=id-img;'') 7 manifest_tags (Some 7)] = m'
        \<and> [''id-b.png=id-img;'', ''tx-1''] ! 0 = item_id stub_sdk m')"
proof -
  let ?b = "[item_of ''img'' ''image/png'',
             Stub_item (Text ''b.png=id-img;'') 7 manifest_tags (Some 7)]"
  from manifest_item_last [OF stub_keeps_items stub_bundleItems_b] obtain m' where
    "last (items stub_sdk ?b) = m'" and
    "\<forall>out ids. uploadBundle stub_sdk ?b = (out, Inr ids) \<longrightarrow> ids ! 0 = item_id stub_sdk m'"
    by blast
  moreover have "items stub_sdk ?b = ?b"
    by (simp add: stub_sdk_def)
  ultimately have "\<exists>m'. last ?b = m'
      \<and> [''id-b.png=id-img;'', ''tx-1''] ! 0 = item_id stub_sdk m'"
    using stub_uploadBundle_b by auto
  with stub_keeps_items stub_bundleItems_b stub_uploadBundle_b show ?thesis by blast
qed

text \<open>
  The path map that the module hands to \<open>generateManifest\<close>. For an item map (its keys
  are distinct, as in every JavaScript \<^verbatim>\<open>Map\<close>) it has exactly one entry per entry of
  the item map, in the same order, and the entry maps the file name to the identifier of
  that file's item. Whenever \<open>bundleItems\<close> returns a bundle, the manifest serialised
  into the manifest item is the one that \<open>generateManifest\<close> returned for this path
  map. What the manifest holds is decided by \<open>generateManifest\<close>.
\<close>

lemma bundleItems_path_map:
  assumes "distinct (map fst itemMap)"
  shows "pathMap lib itemMap = map (\<lambda>(path, item). (path, item_id lib item)) itemMap
       \<and> (\<forall>path. map_of (pathMap lib itemMap) path
                    = map_option (item_id lib) (map_of itemMap path))
       \<and> (\<forall>bundle. bundleItems lib itemMap s = Inr bundle \<longrightarrow>
            (\<exists>irys manifest m.
               getIrys lib In_bundleItems = Inr irys
             \<and> generateManifest lib irys (pathMap lib itemMap) = Inr manifest
             \<and> createData lib (Text (JSON_stringify lib manifest)) s manifest_tags = Inr m
             \<and> bundleAndSignData lib (Map_values itemMap @ [m]) s = Inr bundle))"
proof -
  have eq: "pathMap lib itemMap = map (\<lambda>(path, item). (path, item_id lib item)) itemMap"
    using assms by (rule pathMap_distinct)
  have look: "map_of (pathMap lib itemMap) path = map_option (item_id lib) (map_of itemMap path)"
    for path
    using assms by (rule pathMap_lookup)
  have built: "\<exists>irys manifest m.
               getIrys lib In_bundleItems = Inr irys
             \<and> generateManifest lib irys (pathMap lib itemMap) = Inr manifest
             \<and> createData lib (Text (JSON_stringify lib manifest)) s manifest_tags = Inr m
             \<and> bundleAndSignData lib (Map_values itemMap @ [m]) s = Inr b"
    if "bundleItems lib itemMap s = Inr b" for b
    using that by (auto simp: bundleItems_def split: sum.splits)
  from eq look built show ?thesis by blast
qed

subsection \<open>Files and their names\<close>

lemma no_later_nth:
  assumes "x \<notin> set (map f (drop (Suc i) xs))"
  shows "\<forall>j. i < j \<and> j < length xs \<longrightarrow> f (xs ! j) \<noteq> x"
proof (intro allI impI)
  fix j
  assume j: "i < j \<and> j < length xs"
  then have "j - Suc i < length xs - Suc i" by arith
  then have "j - Suc i < length (drop (Suc i) xs)" by simp
  then have "drop (Suc i) xs ! (j - Suc i) \<in> set (drop (Suc i) xs)" by (rule nth_mem)
  moreover have "drop (Suc i) xs ! (j - Suc i) = xs ! j" using j by simp
  ultimately have "f (xs ! j) \<in> set (map f (drop (Suc i) xs))" by simp
  with assms show "f (xs ! j) \<noteq> x" by blast
qed

lemma prepareFiles_lookup_last:
  assumes "prepareFiles lib files s = Inr itemMap" and "i < length files"
    and later: "file_name (files ! i) \<notin> set (map file_name (drop (Suc i) files))"
  shows "\<exists>item. prepareFile lib (files ! i) s = Inr item
           \<and> map_of itemMap (file_name (files ! i)) = Some item"
proof -
  note no_later = no_later_nth [OF later]
  from prepareFiles_Inr [OF assms(1)] obtain its where
    len: "length its = length files" and
    each: "\<forall>i<length files. prepareFile lib (files ! i) s = Inr (its ! i)" and
    m: "itemMap = new_Map (zip (map file_name files) its)"
    by blast
  let ?ps = "zip (map file_name files) its"
  have i: "i < length ?ps" using assms(2) len by simp
  have "\<forall>j. i < j \<and> j < length ?ps \<longrightarrow> fst (?ps ! j) \<noteq> fst (?ps ! i)"
    using assms(2) no_later len by simp
  with i have "map_of (rev ?ps) (fst (?ps ! i)) = Some (snd (?ps ! i))"
    by (rule map_of_rev_last)
  with i assms(2) len have "map_of itemMap (file_name (files ! i)) = Some (its ! i)"
    by (simp add: m map_of_new_Map)
  with each assms(2) show ?thesis by blast
qed

text \<open>
  C5, amended. When \<open>prepareFiles\<close> succeeds, then for the file at every position of
  the input list a data item was created from that file's bytes, with the ephemeral
  signer and the single tag Content-Type whose value is the file's MIME type, and was
  signed with the ephemeral signer; and the resulting map associates that item with the
  file's name, provided no later file of the list has the same name.
\<close>

theorem prepareFiles_item_per_file:
  assumes "prepareFiles lib files s = Inr itemMap" and "i < length files"
  shows "\<exists>buf created item.
           file_arrayBuffer (files ! i) = Inr buf
         \<and> createData lib (Uint8Array buf) s
             [\<lparr>tag_name = ''Content-Type'', tag_value = file_type (files ! i)\<rparr>] = Inr created
         \<and> sign lib created s = Inr item
         \<and> prepareFile lib (files ! i) s = Inr item
         \<and> (file_name (files ! i) \<notin> set (map file_name (drop (Suc i) files))
              \<longrightarrow> map_of itemMap (file_name (files ! i)) = Some item)"
proof -
  from prepareFiles_Inr [OF assms(1)] assms(2) obtain item where
    item: "prepareFile lib (files ! i) s = Inr item"
    by blast
  then obtain buf created where
    parts: "file_arrayBuffer (files ! i) = Inr buf"
      "createData lib (Uint8Array buf) s
         [\<lparr>tag_name = ''Content-Type'', tag_value = file_type (files ! i)\<rparr>] = Inr created"
      "sign lib created s = Inr item"
    by (auto simp: prepareFile_Inr)
  have "map_of itemMap (file_name (files ! i)) = Some item"
    if "file_name (files ! i) \<notin> set (map file_name (drop (Suc i) files))"
    using prepareFiles_lookup_last [OF assms that] item by simp
  with item parts show ?thesis by blast
qed

lemma stub_prepareFiles_a1_a2:
  "prepareFiles stub_sdk [file_a1, file_a2] 7 = Inr [(''a.txt'', item_of ''two'' ''text/plain'')]"
  by (simp add: prepareFiles_def prepareFile_def Promise_all_def stub_sdk_def stub_sign_def file_a1_def
      file_a2_def item_of_def new_Map_def Map_set_all_def)

theorem prepareFiles_item_per_file_witness:
  "prepareFiles stub_sdk [file_a1, file_a2] 7 = Inr [(''a.txt'', item_of ''two'' ''text/plain'')]
   \<and> (1::nat) < length [file_a1, file_a2]
   \<and> file_name ([file_a1, file_a2] ! 1)
       \<notin> set (map file_name (drop (Suc 1) [file_a1, file_a2]))
   \<and> prepareFile stub_sdk file_a2 7 = Inr (item_of ''two'' ''text/plain'')
   \<and> map_of [(''a.txt'', item_of ''two'' ''text/plain'')] (file_name file_a2)
       = Some (item_of ''two'' ''text/plain'')"
proof -
  have i: "(1::nat) < length [file_a1, file_a2]" by simp
  have no_later: "file_name ([file_a1, file_a2] ! 1)
       \<notin> set (map file_name (drop (Suc 1) [file_a1, file_a2]))"
    by simp
  from prepareFiles_item_per_file [OF stub_prepareFiles_a1_a2 i] no_later
  obtain item where
    made: "prepareFile stub_sdk ([file_a1, file_a2] ! 1) 7 = Inr item" and
    kept: "map_of [(''a.txt'', item_of ''two'' ''text/plain'')]
             (file_name ([file_a1, file_a2] ! 1)) = Some item"
    by blast
  from kept have "item = item_of ''two'' ''text/plain''"
    by (simp add: file_a2_def)
  with made kept have
    "prepareFile stub_sdk file_a2 7 = Inr (item_of ''two'' ''text/plain'')"
    "map_of [(''a.txt'', item_of ''two'' ''text/plain'')] (file_name file_a2)
       = Some (item_of ''two'' ''text/plain'')"
    by simp_all
  with stub_prepareFiles_a1_a2 i no_later show ?thesis by blast
qed

text \<open>
  C5 as worded says that the map associates every file's item with the file's name. For
  two files named \<open>a.txt\<close> with different content the map holds the second file's item
  under \<open>a.txt\<close>, not the first file's.
\<close>

theorem prepareFiles_shared_name_counterexample:
  "prepareFiles stub_sdk [file_a1, file_a2] 7 = Inr [(''a.txt'', item_of ''two'' ''text/plain'')]
   \<and> prepareFile stub_sdk file_a1 7 = Inr (item_of ''one'' ''text/plain'')
   \<and> map_of [(''a.txt'', item_of ''two'' ''text/plain'')] (file_name file_a1)
       \<noteq> Some (item_of ''one'' ''text/plain'')"
  by (simp add: stub_prepareFiles_a1_a2)
    (simp add: prepareFile_def stub_sdk_def stub_sign_def file_a1_def item_of_def)

text \<open>
  Files that share a name. If the files at positions \<open>i < j\<close> have the same name and no
  file after \<open>j\<close> has that name, then (when \<open>prepareFiles\<close> succeeds) the map holds
  under that name the item of file \<open>j\<close> and no other entry for the name, the map has
  strictly fewer items than there are input files, the path map handed to
  \<open>generateManifest\<close> maps the name to the identifier of file \<open>j\<close>'s item, and a bundle
  made from the map holds just the map's items and the manifest item.
\<close>

lemma prepareFiles_keeps_last:
  assumes "prepareFiles lib files s = Inr itemMap"
    and "i < j" and "j < length files"
    and "file_name (files ! i) = file_name (files ! j)"
    and "file_name (files ! j) \<notin> set (map file_name (drop (Suc j) files))"
  shows "\<exists>item. prepareFile lib (files ! j) s = Inr item
           \<and> map_of itemMap (file_name (files ! i)) = Some item
           \<and> filter (\<lambda>p. fst p = file_name (files ! i)) itemMap
               = [(file_name (files ! i), item)]
           \<and> length (Map_values itemMap) < length files
           \<and> map_of (pathMap lib itemMap) (file_name (files ! i)) = Some (item_id lib item)
           \<and> (\<forall>b. bundle_keeps_items lib \<and> bundleItems lib itemMap s = Inr b
                 \<longrightarrow> length (items lib b) = Suc (length (Map_values itemMap)))"
proof -
  from prepareFiles_lookup_last [OF assms(1,3,5)] obtain item where
    item: "prepareFile lib (files ! j) s = Inr item" and
    look: "map_of itemMap (file_name (files ! i)) = Some item"
    using assms(4) by auto
  from prepareFiles_Inr [OF assms(1)] obtain its where
    len: "length its = length files" and
    m: "itemMap = new_Map (zip (map file_name files) its)"
    by blast
  have dist: "distinct (map fst itemMap)"
    by (simp add: m distinct_new_Map)
  have only: "filter (\<lambda>p. fst p = file_name (files ! i)) itemMap
               = [(file_name (files ! i), item)]"
    using dist look by (rule filter_key_distinct)
  have "\<not> distinct (map file_name files)"
  proof
    assume "distinct (map file_name files)"
    moreover have "i < length (map file_name files)" "j < length (map file_name files)"
      using assms(2,3) by simp_all
    ultimately have "map file_name files ! i = map file_name files ! j \<longleftrightarrow> i = j"
      by (rule nth_eq_iff_index_eq)
    with assms(2,3,4) show False by simp
  qed
  then have "\<not> distinct (map fst (zip (map file_name files) its))"
    using len by simp
  then have "length itemMap < length (zip (map file_name files) its)"
    unfolding m by (rule length_new_Map_less)
  then have fewer: "length (Map_values itemMap) < length files"
    using len by (simp add: Map_values_def)
  have path: "map_of (pathMap lib itemMap) (file_name (files ! i)) = Some (item_id lib item)"
    using pathMap_lookup [OF dist, of lib "file_name (files ! i)"] look by simp
  have blen: "length (items lib b) = Suc (length (Map_values itemMap))"
    if "bundle_keeps_items lib \<and> bundleItems lib itemMap s = Inr b" for b
  proof -
    from that obtain m where "bundleAndSignData lib (Map_values itemMap @ [m]) s = Inr b"
      by (auto simp: bundleItems_Inr)
    with that have "list_all2 (bundled lib s) (Map_values itemMap @ [m]) (items lib b)"
      by (simp add: bundle_keeps_items_def)
    then have "length (Map_values itemMap @ [m]) = length (items lib b)"
      by (rule list_all2_lengthD)
    then show ?thesis by simp
  qed
  from item look only fewer path blen show ?thesis by blast
qed

subsection \<open>The manifest and the name \<^verbatim>\<open>__proto__\<close>\<close>




subsection \<open>The upload and the caught exception\<close>

lemma fundAndUploadNestedBundle_Inr:
  "try_body lib files = (out, Inr ids) \<Longrightarrow> fundAndUploadNestedBundle lib files = (out, ids)"
  by (simp add: fundAndUploadNestedBundle_def)

lemma fundAndUploadNestedBundle_Inl:
  "try_body lib files = (out, Inl e)
     \<Longrightarrow> fundAndUploadNestedBundle lib files = (out @ [Log_error_on_upload e], ['''', ''''])"
  by (simp add: fundAndUploadNestedBundle_def)

lemma try_body_two: "try_body lib files = (out, Inr ids) \<Longrightarrow> length ids = 2"
  by (auto simp: try_body_Inr uploadBundle_Inr)

lemma try_body_upload_Inl:
  assumes "generateJWK lib = Inr jwk"
    and "prepareFiles lib files (ArweaveSigner lib jwk) = Inr preppedFiles"
    and "bundleItems lib preppedFiles (ArweaveSigner lib jwk) = Inr b"
    and "snd (uploadBundle lib b) = Inl e"
  shows "try_body lib files = (fst (uploadBundle lib b), Inl e)"
  using assms by (cases "uploadBundle lib b") (simp add: try_body_def)

text \<open>
  C6. \<open>uploadBundle\<close> returns its two identifiers exactly when the client was obtained,
  one transaction was created over the raw bytes of the bundle with the tags
  Bundle-Format = binary and Bundle-Version = 2.0.0, that transaction was signed, and the
  signed transaction was accepted by the chunked uploader. The transaction the uploader
  receives is the one signing returned; when signing fails nothing is uploaded.
\<close>

theorem uploadBundle_submits:
  "(uploadBundle lib bundle = (out, Inr ids) \<longleftrightarrow>
     (\<exists>irys tx0 tx events receipt manifestId.
        getIrys lib In_uploadBundle = Inr irys
      \<and> createTransaction lib irys (getRaw lib bundle)
          [\<lparr>tag_name = ''Bundle-Format'', tag_value = ''binary''\<rparr>,
           \<lparr>tag_name = ''Bundle-Version'', tag_value = ''2.0.0''\<rparr>] = Inr tx0
      \<and> tx_sign lib tx0 = Inr tx
      \<and> uploadTransaction lib irys tx = (events, Inr receipt)
      \<and> last_item_id lib bundle = Inr manifestId
      \<and> out = map on_event events
      \<and> ids = [manifestId, receipt_data_id lib receipt]))
   \<and> (\<forall>irys tx0 e.
         getIrys lib In_uploadBundle = Inr irys
       \<and> createTransaction lib irys (getRaw lib bundle)
           [\<lparr>tag_name = ''Bundle-Format'', tag_value = ''binary''\<rparr>,
            \<lparr>tag_name = ''Bundle-Version'', tag_value = ''2.0.0''\<rparr>] = Inr tx0
       \<and> tx_sign lib tx0 = Inl e
       \<longrightarrow> uploadBundle lib bundle = ([], Inl e))"
proof -
  have tags: "bundle_tags =
      [\<lparr>tag_name = ''Bundle-Format'', tag_value = ''binary''\<rparr>,
       \<lparr>tag_name = ''Bundle-Version'', tag_value = ''2.0.0''\<rparr>]"
    by (simp add: bundle_tags_def)
  have unsigned: "uploadBundle lib bundle = ([], Inl e)"
    if "getIrys lib In_uploadBundle = Inr irys
       \<and> createTransaction lib irys (getRaw lib bundle) bundle_tags = Inr tx0
       \<and> tx_sign lib tx0 = Inl e" for irys tx0 e
    using that by (simp add: uploadBundle_def)
  show ?thesis
    unfolding tags [symmetric] using unsigned by (simp only: uploadBundle_Inr) blast
qed

theorem uploadBundle_submits_witness:
  "uploadBundle stub_sdk [item_of ''img'' ''image/png'']
     = ([Log_chunk_uploaded 0 0 3 3, Log_upload_completed ''tx-1''], Inr [''id-img'', ''tx-1''])
   \<and> (\<exists>irys tx0 tx events receipt manifestId.
        getIrys stub_sdk In_uploadBundle = Inr irys
      \<and> createTransaction stub_sdk irys (getRaw stub_sdk [item_of ''img'' ''image/png''])
          [\<lparr>tag_name = ''Bundle-Format'', tag_value = ''binary''\<rparr>,
           \<lparr>tag_name = ''Bundle-Version'', tag_value = ''2.0.0''\<rparr>] = Inr tx0
      \<and> tx_sign stub_sdk tx0 = Inr tx
      \<and> uploadTransaction stub_sdk irys tx = (events, Inr receipt)
      \<and> last_item_id stub_sdk [item_of ''img'' ''image/png''] = Inr manifestId
      \<and> [Log_chunk_uploaded 0 0 3 3, Log_upload_completed ''tx-1''] = map on_event events
      \<and> [''id-img'', ''tx-1''] = [manifestId, receipt_data_id stub_sdk receipt])
   \<and> getIrys rejecting_sdk In_uploadBundle = Inr ()
   \<and> createTransaction rejecting_sdk () (getRaw rejecting_sdk [item_of ''img'' ''image/png''])
         [\<lparr>tag_name = ''Bundle-Format'', tag_value = ''binary''\<rparr>,
          \<lparr>tag_name = ''Bundle-Version'', tag_value = ''2.0.0''\<rparr>]
       = Inr (''img'', bundle_tags, False)
   \<and> tx_sign rejecting_sdk (''img'', bundle_tags, False) = Inl (SdkError ''user rejected'')
   \<and> uploadBundle rejecting_sdk [item_of ''img'' ''image/png'']
       = ([], Inl (SdkError ''user rejected''))"
proof -
  have run: "uploadBundle stub_sdk [item_of ''img'' ''image/png'']
     = ([Log_chunk_uploaded 0 0 3 3, Log_upload_completed ''tx-1''], Inr [''id-img'', ''tx-1''])"
    by (simp add: uploadBundle_def stub_sdk_def stub_upload_def last_item_id_def stub_id_def
        item_of_def bundle_tags_def)
  have calls: "getIrys rejecting_sdk In_uploadBundle = Inr ()"
    "createTransaction rejecting_sdk () (getRaw rejecting_sdk [item_of ''img'' ''image/png''])
         [\<lparr>tag_name = ''Bundle-Format'', tag_value = ''binary''\<rparr>,
          \<lparr>tag_name = ''Bundle-Version'', tag_value = ''2.0.0''\<rparr>]
       = Inr (''img'', bundle_tags, False)"
    "tx_sign rejecting_sdk (''img'', bundle_tags, False) = Inl (SdkError ''user rejected'')"
    by (simp_all add: rejecting_sdk_def stub_sdk_def item_of_def bundle_tags_def)
  from calls uploadBundle_submits [of rejecting_sdk "[item_of ''img'' ''image/png'']"]
  have stopped: "uploadBundle rejecting_sdk [item_of ''img'' ''image/png'']
       = ([], Inl (SdkError ''user rejected''))"
    by blast
  from uploadBundle_submits [of stub_sdk "[item_of ''img'' ''image/png'']"
      "[Log_chunk_uploaded 0 0 3 3, Log_upload_completed ''tx-1'']" "[''id-img'', ''tx-1'']"]
    run calls stopped
  show ?thesis by blast
qed

text \<open>
  C2. If key generation, file preparation, bundling or the upload throws \<open>e\<close>, then
  \<open>fundAndUploadNestedBundle\<close> logs \<open>e\<close> as its last console line and returns
  \<^verbatim>\<open>["", ""]\<close>; the function always returns, its result has no exception. In
  particular: when reading, creating or signing the file at position \<open>i\<close> throws \<open>e\<close>
  and every other file either settles later or is read, created and signed, it is \<open>e\<close>
  that is logged; and when the client was obtained for bundling but the second
  \<^verbatim>\<open>getIrys()\<close>, in the upload, throws \<open>e\<close>, then \<open>e\<close> is logged and nothing else.
\<close>

theorem fundAndUploadNestedBundle_catches:
  "((generateJWK lib = Inl e
      \<or> (\<exists>jwk. generateJWK lib = Inr jwk
           \<and> (prepareFiles lib files (ArweaveSigner lib jwk) = Inl e
              \<or> (\<exists>preppedFiles.
                    prepareFiles lib files (ArweaveSigner lib jwk) = Inr preppedFiles
                  \<and> (bundleItems lib preppedFiles (ArweaveSigner lib jwk) = Inl e
                     \<or> (\<exists>b. bundleItems lib preppedFiles (ArweaveSigner lib jwk) = Inr b
                            \<and> snd (uploadBundle lib b) = Inl e))))))
     \<longrightarrow> (\<exists>out. fundAndUploadNestedBundle lib files
                  = (out @ [Log_error_on_upload e], ['''', ''''])))
   \<and> (generateJWK lib = Inr jwk
      \<and> i < length files
      \<and> (file_arrayBuffer (files ! i) = Inl e
         \<or> (\<exists>buf. file_arrayBuffer (files ! i) = Inr buf
               \<and> (createData lib (Uint8Array buf) (ArweaveSigner lib jwk)
                     [\<lparr>tag_name = ''Content-Type'', tag_value = file_type (files ! i)\<rparr>]
                     = Inl e
                  \<or> (\<exists>created.
                        createData lib (Uint8Array buf) (ArweaveSigner lib jwk)
                          [\<lparr>tag_name = ''Content-Type'',
                             tag_value = file_type (files ! i)\<rparr>] = Inr created
                      \<and> sign lib created (ArweaveSigner lib jwk) = Inl e))))
      \<and> (\<forall>j<length files. j \<noteq> i \<longrightarrow>
             settled_at lib i < settled_at lib j
           \<or> (\<exists>buf created item.
                 file_arrayBuffer (files ! j) = Inr buf
               \<and> createData lib (Uint8Array buf) (ArweaveSigner lib jwk)
                   [\<lparr>tag_name = ''Content-Type'', tag_value = file_type (files ! j)\<rparr>]
                   = Inr created
               \<and> sign lib created (ArweaveSigner lib jwk) = Inr item))
     \<longrightarrow> fundAndUploadNestedBundle lib files = ([Log_error_on_upload e], ['''', '''']))
   \<and> (generateJWK lib = Inr jwk
      \<and> prepareFiles lib files (ArweaveSigner lib jwk) = Inr preppedFiles
      \<and> bundleItems lib preppedFiles (ArweaveSigner lib jwk) = Inr b
      \<and> getIrys lib In_uploadBundle = Inl e
     \<longrightarrow> fundAndUploadNestedBundle lib files = ([Log_error_on_upload e], ['''', '''']))"
proof (intro conjI impI)
  assume "generateJWK lib = Inl e
      \<or> (\<exists>jwk. generateJWK lib = Inr jwk
           \<and> (prepareFiles lib files (ArweaveSigner lib jwk) = Inl e
              \<or> (\<exists>preppedFiles.
                    prepareFiles lib files (ArweaveSigner lib jwk) = Inr preppedFiles
                  \<and> (bundleItems lib preppedFiles (ArweaveSigner lib jwk) = Inl e
                     \<or> (\<exists>b. bundleItems lib preppedFiles (ArweaveSigner lib jwk) = Inr b
                            \<and> snd (uploadBundle lib b) = Inl e)))))"
  then have "\<exists>out. try_body lib files = (out, Inl e)"
  proof (elim disjE exE conjE)
    assume "generateJWK lib = Inl e"
    then show ?thesis by (simp add: try_body_def)
  next
    fix jwk
    assume "generateJWK lib = Inr jwk" "prepareFiles lib files (ArweaveSigner lib jwk) = Inl e"
    then show ?thesis by (simp add: try_body_def)
  next
    fix jwk preppedFiles
    assume "generateJWK lib = Inr jwk"
      "prepareFiles lib files (ArweaveSigner lib jwk) = Inr preppedFiles"
      "bundleItems lib preppedFiles (ArweaveSigner lib jwk) = Inl e"
    then show ?thesis by (simp add: try_body_def)
  next
    fix jwk preppedFiles b
    assume "generateJWK lib = Inr jwk"
      "prepareFiles lib files (ArweaveSigner lib jwk) = Inr preppedFiles"
      "bundleItems lib preppedFiles (ArweaveSigner lib jwk) = Inr b"
      "snd (uploadBundle lib b) = Inl e"
    then have "try_body lib files = (fst (uploadBundle lib b), Inl e)"
      by (rule try_body_upload_Inl)
    then show ?thesis by blast
  qed
  then obtain out where "try_body lib files = (out, Inl e)" by blast
  then have "fundAndUploadNestedBundle lib files = (out @ [Log_error_on_upload e], ['''', ''''])"
    by (rule fundAndUploadNestedBundle_Inl)
  then show "\<exists>out. fundAndUploadNestedBundle lib files
                  = (out @ [Log_error_on_upload e], ['''', ''''])"
    by blast
next
  assume "generateJWK lib = Inr jwk
      \<and> i < length files
      \<and> (file_arrayBuffer (files ! i) = Inl e
         \<or> (\<exists>buf. file_arrayBuffer (files ! i) = Inr buf
               \<and> (createData lib (Uint8Array buf) (ArweaveSigner lib jwk)
                     [\<lparr>tag_name = ''Content-Type'', tag_value = file_type (files ! i)\<rparr>]
                     = Inl e
                  \<or> (\<exists>created.
                        createData lib (Uint8Array buf) (ArweaveSigner lib jwk)
                          [\<lparr>tag_name = ''Content-Type'',
                             tag_value = file_type (files ! i)\<rparr>] = Inr created
                      \<and> sign lib created (ArweaveSigner lib jwk) = Inl e))))
      \<and> (\<forall>j<length files. j \<noteq> i \<longrightarrow>
             settled_at lib i < settled_at lib j
           \<or> (\<exists>buf created item.
                 file_arrayBuffer (files ! j) = Inr buf
               \<and> createData lib (Uint8Array buf) (ArweaveSigner lib jwk)
                   [\<lparr>tag_name = ''Content-Type'', tag_value = file_type (files ! j)\<rparr>]
                   = Inr created
               \<and> sign lib created (ArweaveSigner lib jwk) = Inr item))"
  then have h: "generateJWK lib = Inr jwk
      \<and> i < length files
      \<and> prepareFile lib (files ! i) (ArweaveSigner lib jwk) = Inl e
      \<and> (\<forall>j<length files. j \<noteq> i \<longrightarrow>
             (\<exists>item. prepareFile lib (files ! j) (ArweaveSigner lib jwk) = Inr item)
           \<or> settled_at lib i < settled_at lib j)"
    unfolding prepareFile_Inl prepareFile_Inr by blast
  then have "prepareFiles lib files (ArweaveSigner lib jwk) = Inl e"
    by (intro prepareFiles_first [of i]) blast+
  with h have "try_body lib files = ([], Inl e)"
    by (simp add: try_body_def)
  then have "fundAndUploadNestedBundle lib files = ([] @ [Log_error_on_upload e], ['''', ''''])"
    by (rule fundAndUploadNestedBundle_Inl)
  then show "fundAndUploadNestedBundle lib files = ([Log_error_on_upload e], ['''', ''''])"
    by simp
next
  assume h: "generateJWK lib = Inr jwk
      \<and> prepareFiles lib files (ArweaveSigner lib jwk) = Inr preppedFiles
      \<and> bundleItems lib preppedFiles (ArweaveSigner lib jwk) = Inr b
      \<and> getIrys lib In_uploadBundle = Inl e"
  then have "uploadBundle lib b = ([], Inl e)"
    by (simp add: uploadBundle_def)
  with h have "try_body lib files = ([], Inl e)"
    by (simp add: try_body_def)
  then have "fundAndUploadNestedBundle lib files = ([] @ [Log_error_on_upload e], ['''', ''''])"
    by (rule fundAndUploadNestedBundle_Inl)
  then show "fundAndUploadNestedBundle lib files = ([Log_error_on_upload e], ['''', ''''])"
    by simp
qed

theorem fundAndUploadNestedBundle_catches_witness:
  "generateJWK failing_sign_sdk = Inr 7
   \<and> file_arrayBuffer ([file_a1, file_c] ! 0) = Inr ''one''
   \<and> createData failing_sign_sdk (Uint8Array ''one'') (ArweaveSigner failing_sign_sdk 7)
        [\<lparr>tag_name = ''Content-Type'', tag_value = file_type ([file_a1, file_c] ! 0)\<rparr>]
       = Inr (Stub_item (Uint8Array ''one'') 7
               [\<lparr>tag_name = ''Content-Type'', tag_value = ''text/plain''\<rparr>] None)
   \<and> sign failing_sign_sdk
        (Stub_item (Uint8Array ''one'') 7
          [\<lparr>tag_name = ''Content-Type'', tag_value = ''text/plain''\<rparr>] None)
        (ArweaveSigner failing_sign_sdk 7)
       = Inl (SdkError ''sign failed'')
   \<and> file_arrayBuffer ([file_a1, file_c] ! 1) = Inl (SdkError ''read failed'')
   \<and> settled_at failing_sign_sdk 1 < settled_at failing_sign_sdk 0
   \<and> fundAndUploadNestedBundle failing_sign_sdk [file_a1, file_c]
       = ([Log_error_on_upload (SdkError ''read failed'')], ['''', ''''])
   \<and> generateJWK offline_sdk = Inr 7
   \<and> prepareFiles offline_sdk [file_b] (ArweaveSigner offline_sdk 7)
       = Inr [(''b.png'', item_of ''img'' ''image/png'')]
   \<and> bundleItems offline_sdk [(''b.png'', item_of ''img'' ''image/png'')]
         (ArweaveSigner offline_sdk 7)
       = Inr [item_of ''img'' ''image/png'',
              Stub_item (Text ''b.png=id-img;'') 7 manifest_tags (Some 7)]
   \<and> getIrys offline_sdk In_uploadBundle = Inl (SdkError ''no wallet'')
   \<and> fundAndUploadNestedBundle offline_sdk [file_b]
       = ([Log_error_on_upload (SdkError ''no wallet'')], ['''', ''''])"
proof -
  let ?s = "ArweaveSigner failing_sign_sdk 7"
  have key: "generateJWK failing_sign_sdk = Inr 7"
    by (simp add: failing_sign_sdk_def stub_sdk_def)
  have f0: "file_arrayBuffer ([file_a1, file_c] ! 0) = Inr ''one''"
    "createData failing_sign_sdk (Uint8Array ''one'') ?s
        [\<lparr>tag_name = ''Content-Type'', tag_value = file_type ([file_a1, file_c] ! 0)\<rparr>]
       = Inr (Stub_item (Uint8Array ''one'') 7
               [\<lparr>tag_name = ''Content-Type'', tag_value = ''text/plain''\<rparr>] None)"
    "sign failing_sign_sdk
        (Stub_item (Uint8Array ''one'') 7
          [\<lparr>tag_name = ''Content-Type'', tag_value = ''text/plain''\<rparr>] None) ?s
       = Inl (SdkError ''sign failed'')"
    by (simp_all add: failing_sign_sdk_def stub_sdk_def file_a1_def)
  have f1: "file_arrayBuffer ([file_a1, file_c] ! 1) = Inl (SdkError ''read failed'')"
    by (simp add: file_c_def)
  have time: "settled_at failing_sign_sdk 1 < settled_at failing_sign_sdk 0"
    by (simp add: failing_sign_sdk_def)
  have others: "\<forall>j<length [file_a1, file_c]. j \<noteq> 1 \<longrightarrow>
             settled_at failing_sign_sdk 1 < settled_at failing_sign_sdk j
           \<or> (\<exists>buf created item.
                 file_arrayBuffer ([file_a1, file_c] ! j) = Inr buf
               \<and> createData failing_sign_sdk (Uint8Array buf) ?s
                   [\<lparr>tag_name = ''Content-Type'',
                      tag_value = file_type ([file_a1, file_c] ! j)\<rparr>] = Inr created
               \<and> sign failing_sign_sdk created ?s = Inr item)"
  proof (intro allI impI)
    fix j :: nat
    assume "j < length [file_a1, file_c]" "j \<noteq> 1"
    then have "j = 0" by simp
    with time show "settled_at failing_sign_sdk 1 < settled_at failing_sign_sdk j
           \<or> (\<exists>buf created item.
                 file_arrayBuffer ([file_a1, file_c] ! j) = Inr buf
               \<and> createData failing_sign_sdk (Uint8Array buf) ?s
                   [\<lparr>tag_name = ''Content-Type'',
                      tag_value = file_type ([file_a1, file_c] ! j)\<rparr>] = Inr created
               \<and> sign failing_sign_sdk created ?s = Inr item)"
      by simp
  qed
  have i: "(1::nat) < length [file_a1, file_c]" by simp
  from fundAndUploadNestedBundle_catches
    [of failing_sign_sdk "SdkError ''read failed''" "[file_a1, file_c]" 7 1]
    key i f1 others
  have logged: "fundAndUploadNestedBundle failing_sign_sdk [file_a1, file_c]
       = ([Log_error_on_upload (SdkError ''read failed'')], ['''', ''''])"
    by blast
  have key2: "generateJWK offline_sdk = Inr 7"
    by (simp add: offline_sdk_def stub_sdk_def)
  have prep: "prepareFiles offline_sdk [file_b] (ArweaveSigner offline_sdk 7)
       = Inr [(''b.png'', item_of ''img'' ''image/png'')]"
    by (simp add: offline_sdk_def prepareFiles_def prepareFile_def Promise_all_def stub_sdk_def
        stub_sign_def file_b_def item_of_def new_Map_def Map_set_all_def)
  have bun: "bundleItems offline_sdk [(''b.png'', item_of ''img'' ''image/png'')]
         (ArweaveSigner offline_sdk 7)
       = Inr [item_of ''img'' ''image/png'',
              Stub_item (Text ''b.png=id-img;'') 7 manifest_tags (Some 7)]"
    by (simp add: offline_sdk_def bundleItems_def stub_sdk_def pathMap_def new_Map_def
        Map_set_all_def Map_values_def stub_bundle_def stub_sign_def stub_json_def
        stub_manifest_def object_set_def stub_id_def item_of_def)
  have second: "getIrys offline_sdk In_uploadBundle = Inl (SdkError ''no wallet'')"
    by (simp add: offline_sdk_def)
  from fundAndUploadNestedBundle_catches
    [of offline_sdk "SdkError ''no wallet''" "[file_b]" 7 _
      "[(''b.png'', item_of ''img'' ''image/png'')]"
      "[item_of ''img'' ''image/png'',
        Stub_item (Text ''b.png=id-img;'') 7 manifest_tags (Some 7)]"]
    key2 prep bun second
  have dropped: "fundAndUploadNestedBundle offline_sdk [file_b]
       = ([Log_error_on_upload (SdkError ''no wallet'')], ['''', ''''])"
    by blast
  from key f0 f1 time logged key2 prep bun second dropped show ?thesis by blast
qed

subsection \<open>The whole run\<close>

lemma fundAndUploadNestedBundle_length:
  "length (snd (fundAndUploadNestedBundle lib files)) = 2"
proof (cases "try_body lib files")
  case (Pair out r)
  show ?thesis
  proof (cases r)
    case (Inl e)
    with Pair show ?thesis by (simp add: fundAndUploadNestedBundle_def)
  next
    case (Inr ids)
    with Pair have "length ids = 2" by (simp add: try_body_two)
    with Pair Inr show ?thesis by (simp add: fundAndUploadNestedBundle_def)
  qed
qed

lemma prepareFiles_succeeds:
  assumes "length its = length files"
    and "\<forall>i<length files. prepareFile lib (files ! i) s = Inr (its ! i)"
  shows "prepareFiles lib files s = Inr (new_Map (zip (map file_name files) its))"
proof -
  let ?g = "\<lambda>file. case prepareFile lib file s of
                      Inl e \<Rightarrow> Inl e | Inr item \<Rightarrow> Inr (file_name file, item)"
  have "map ?g files = map Inr (zip (map file_name files) its)"
  proof (rule nth_equalityI)
    show "length (map ?g files) = length (map Inr (zip (map file_name files) its))"
      using assms(1) by simp
    show "map ?g files ! i = map Inr (zip (map file_name files) its) ! i"
      if "i < length (map ?g files)" for i
      using that assms by simp
  qed
  then have "Promise_all (settled_at lib) (map ?g files)
               = Inr (zip (map file_name files) its)"
    by (simp only: Promise_all_Inr)
  then show ?thesis by (simp add: prepareFiles_def)
qed

text \<open>
  C1. For every list of input files \<open>fundAndUploadNestedBundle\<close> returns an array of
  exactly two strings. When the library calls of the run succeed (the key is generated,
  every file is read, made a data item and signed, the client is obtained, the manifest
  is generated and made a data item, the items are bundled, the client is obtained
  again, the transaction is created, signed and uploaded) and the library keeps the items
  of a bundle, the run returns, in this order, the identifier of the manifest item as it
  stands last in the bundle, and the identifier in the receipt that the chunked uploader
  returned for the signed transaction over that bundle; the console holds the lines of
  the upload events and no error.
\<close>

theorem fundAndUploadNestedBundle_two_ids:
  "length (snd (fundAndUploadNestedBundle lib files)) = 2
   \<and> (bundle_keeps_items lib
      \<and> generateJWK lib = Inr jwk
      \<and> list_all2
          (\<lambda>file item. \<exists>buf created.
              file_arrayBuffer file = Inr buf
            \<and> createData lib (Uint8Array buf) (ArweaveSigner lib jwk)
                [\<lparr>tag_name = ''Content-Type'', tag_value = file_type file\<rparr>] = Inr created
            \<and> sign lib created (ArweaveSigner lib jwk) = Inr item)
          files its
      \<and> itemMap = new_Map (zip (map file_name files) its)
      \<and> getIrys lib In_bundleItems = Inr irys
      \<and> generateManifest lib irys (map (\<lambda>(path, item). (path, item_id lib item)) itemMap)
          = Inr manifest
      \<and> createData lib (Text (JSON_stringify lib manifest)) (ArweaveSigner lib jwk)
          [\<lparr>tag_name = ''Type'', tag_value = ''manifest''\<rparr>,
           \<lparr>tag_name = ''Content-Type'',
              tag_value = ''application/x.arweave-manifest+json''\<rparr>] = Inr m
      \<and> bundleAndSignData lib (map snd itemMap @ [m]) (ArweaveSigner lib jwk) = Inr b
      \<and> getIrys lib In_uploadBundle = Inr irys2
      \<and> createTransaction lib irys2 (getRaw lib b)
          [\<lparr>tag_name = ''Bundle-Format'', tag_value = ''binary''\<rparr>,
           \<lparr>tag_name = ''Bundle-Version'', tag_value = ''2.0.0''\<rparr>] = Inr tx0
      \<and> tx_sign lib tx0 = Inr tx
      \<and> uploadTransaction lib irys2 tx = (events, Inr receipt)
     \<longrightarrow> (\<exists>m'. bundled lib (ArweaveSigner lib jwk) m m'
              \<and> length (items lib b) = Suc (length itemMap)
              \<and> items lib b ! length itemMap = m'
              \<and> last (items lib b) = m'
              \<and> fundAndUploadNestedBundle lib files
                  = (map on_event events, [item_id lib m', receipt_data_id lib receipt])))"
proof (intro conjI impI)
  show "length (snd (fundAndUploadNestedBundle lib files)) = 2"
    by (rule fundAndUploadNestedBundle_length)
next
  let ?s = "ArweaveSigner lib jwk"
  assume h: "bundle_keeps_items lib
      \<and> generateJWK lib = Inr jwk
      \<and> list_all2
          (\<lambda>file item. \<exists>buf created.
              file_arrayBuffer file = Inr buf
            \<and> createData lib (Uint8Array buf) ?s
                [\<lparr>tag_name = ''Content-Type'', tag_value = file_type file\<rparr>] = Inr created
            \<and> sign lib created ?s = Inr item)
          files its
      \<and> itemMap = new_Map (zip (map file_name files) its)
      \<and> getIrys lib In_bundleItems = Inr irys
      \<and> generateManifest lib irys (map (\<lambda>(path, item). (path, item_id lib item)) itemMap)
          = Inr manifest
      \<and> createData lib (Text (JSON_stringify lib manifest)) ?s
          [\<lparr>tag_name = ''Type'', tag_value = ''manifest''\<rparr>,
           \<lparr>tag_name = ''Content-Type'',
              tag_value = ''application/x.arweave-manifest+json''\<rparr>] = Inr m
      \<and> bundleAndSignData lib (map snd itemMap @ [m]) ?s = Inr b
      \<and> getIrys lib In_uploadBundle = Inr irys2
      \<and> createTransaction lib irys2 (getRaw lib b)
          [\<lparr>tag_name = ''Bundle-Format'', tag_value = ''binary''\<rparr>,
           \<lparr>tag_name = ''Bundle-Version'', tag_value = ''2.0.0''\<rparr>] = Inr tx0
      \<and> tx_sign lib tx0 = Inr tx
      \<and> uploadTransaction lib irys2 tx = (events, Inr receipt)"
  then have keeps: "bundle_keeps_items lib"
    and key: "generateJWK lib = Inr jwk"
    and made: "list_all2
          (\<lambda>file item. \<exists>buf created.
              file_arrayBuffer file = Inr buf
            \<and> createData lib (Uint8Array buf) ?s
                [\<lparr>tag_name = ''Content-Type'', tag_value = file_type file\<rparr>] = Inr created
            \<and> sign lib created ?s = Inr item)
          files its"
    and map_eq: "itemMap = new_Map (zip (map file_name files) its)"
    and irys: "getIrys lib In_bundleItems = Inr irys"
    and manifest: "generateManifest lib irys
          (map (\<lambda>(path, item). (path, item_id lib item)) itemMap) = Inr manifest"
    and irys2: "getIrys lib In_uploadBundle = Inr irys2"
    and tx: "tx_sign lib tx0 = Inr tx"
    and up: "uploadTransaction lib irys2 tx = (events, Inr receipt)"
    by blast+
  have m: "createData lib (Text (JSON_stringify lib manifest)) ?s manifest_tags = Inr m"
    unfolding manifest_tags_def using h by blast
  have packed: "bundleAndSignData lib (Map_values itemMap @ [m]) ?s = Inr b"
    unfolding Map_values_def using h by blast
  have tx0: "createTransaction lib irys2 (getRaw lib b) bundle_tags = Inr tx0"
    unfolding bundle_tags_def using h by blast
  from made have len: "length its = length files"
    by (auto dest: list_all2_lengthD)
  have each: "\<forall>i<length files. prepareFile lib (files ! i) ?s = Inr (its ! i)"
  proof (intro allI impI)
    fix i
    assume "i < length files"
    from list_all2_nthD [OF made this]
    show "prepareFile lib (files ! i) ?s = Inr (its ! i)"
      by (simp only: prepareFile_Inr)
  qed
  have prep: "prepareFiles lib files ?s = Inr itemMap"
    unfolding map_eq using len each by (rule prepareFiles_succeeds)
  have "distinct (map fst itemMap)"
    unfolding map_eq by (rule distinct_new_Map)
  then have paths: "pathMap lib itemMap
      = map (\<lambda>(path, item). (path, item_id lib item)) itemMap"
    by (rule pathMap_distinct)
  have bun: "bundleItems lib itemMap ?s = Inr b"
    using irys manifest m packed by (simp add: bundleItems_def paths)
  from bundle_shape [OF keeps packed] obtain us m' where
    shape: "items lib b = us @ [m']" and
    us: "list_all2 (bundled lib ?s) (Map_values itemMap) us" and
    m': "bundled lib ?s m m'"
    by blast
  from us have ulen: "length us = length itemMap"
    by (auto simp: Map_values_def dest: list_all2_lengthD)
  have lid: "last_item_id lib b = Inr (item_id lib m')"
    using shape by (rule last_item_id_snoc)
  have upload: "uploadBundle lib b
      = (map on_event events, Inr [item_id lib m', receipt_data_id lib receipt])"
    using irys2 tx0 tx up lid by (simp add: uploadBundle_def)
  have "try_body lib files
      = (map on_event events, Inr [item_id lib m', receipt_data_id lib receipt])"
    using key prep bun upload by (simp add: try_body_def)
  then have res: "fundAndUploadNestedBundle lib files
      = (map on_event events, [item_id lib m', receipt_data_id lib receipt])"
    by (rule fundAndUploadNestedBundle_Inr)
  have pos: "length (items lib b) = Suc (length itemMap)"
    "items lib b ! length itemMap = m'" "last (items lib b) = m'"
    using shape ulen by (simp_all add: nth_append)
  from m' pos res
  show "\<exists>m'. bundled lib ?s m m'
              \<and> length (items lib b) = Suc (length itemMap)
              \<and> items lib b ! length itemMap = m'
              \<and> last (items lib b) = m'
              \<and> fundAndUploadNestedBundle lib files
                  = (map on_event events, [item_id lib m', receipt_data_id lib receipt])"
    by blast
qed

theorem fundAndUploadNestedBundle_two_ids_witness:
  "bundle_keeps_items stub_sdk
   \<and> generateJWK stub_sdk = Inr 7
   \<and> list_all2
        (\<lambda>file item. \<exists>buf created.
            file_arrayBuffer file = Inr buf
          \<and> createData stub_sdk (Uint8Array buf) (ArweaveSigner stub_sdk 7)
              [\<lparr>tag_name = ''Content-Type'', tag_value = file_type file\<rparr>] = Inr created
          \<and> sign stub_sdk created (ArweaveSigner stub_sdk 7) = Inr item)
        [file_a1, file_b] [item_of ''one'' ''text/plain'', item_of ''img'' ''image/png'']
   \<and> [(''a.txt'', item_of ''one'' ''text/plain''), (''b.png'', item_of ''img'' ''image/png'')]
       = new_Map (zip (map file_name [file_a1, file_b])
           [item_of ''one'' ''text/plain'', item_of ''img'' ''image/png''])
   \<and> getIrys stub_sdk In_bundleItems = Inr ()
   \<and> generateManifest stub_sdk ()
        (map (\<lambda>(path, item). (path, item_id stub_sdk item))
          [(''a.txt'', item_of ''one'' ''text/plain''),
           (''b.png'', item_of ''img'' ''image/png'')])
       = Inr [(''a.txt'', ''id-one''), (''b.png'', ''id-img'')]
   \<and> createData stub_sdk
        (Text (JSON_stringify stub_sdk [(''a.txt'', ''id-one''), (''b.png'', ''id-img'')]))
        (ArweaveSigner stub_sdk 7)
        [\<lparr>tag_name = ''Type'', tag_value = ''manifest''\<rparr>,
         \<lparr>tag_name = ''Content-Type'',
            tag_value = ''application/x.arweave-manifest+json''\<rparr>]
       = Inr (Stub_item (Text ''a.txt=id-one;b.png=id-img;'') 7 manifest_tags None)
   \<and> bundleAndSignData stub_sdk
        (map snd [(''a.txt'', item_of ''one'' ''text/plain''),
                  (''b.png'', item_of ''img'' ''image/png'')]
         @ [Stub_item (Text ''a.txt=id-one;b.png=id-img;'') 7 manifest_tags None])
        (ArweaveSigner stub_sdk 7)
       = Inr [item_of ''one'' ''text/plain'', item_of ''img'' ''image/png'',
              Stub_item (Text ''a.txt=id-one;b.png=id-img;'') 7 manifest_tags (Some 7)]
   \<and> getIrys stub_sdk In_uploadBundle = Inr ()
   \<and> createTransaction stub_sdk ()
        (getRaw stub_sdk [item_of ''one'' ''text/plain'', item_of ''img'' ''image/png'',
           Stub_item (Text ''a.txt=id-one;b.png=id-img;'') 7 manifest_tags (Some 7)])
        [\<lparr>tag_name = ''Bundle-Format'', tag_value = ''binary''\<rparr>,
         \<lparr>tag_name = ''Bundle-Version'', tag_value = ''2.0.0''\<rparr>]
       = Inr (''oneimga.txt=id-one;b.png=id-img;'', bundle_tags, False)
   \<and> tx_sign stub_sdk (''oneimga.txt=id-one;b.png=id-img;'', bundle_tags, False)
       = Inr (''oneimga.txt=id-one;b.png=id-img;'', bundle_tags, True)
   \<and> uploadTransaction stub_sdk () (''oneimga.txt=id-one;b.png=id-img;'', bundle_tags, True)
       = ([ChunkUpload 0 0 32 32, Done_event ''tx-1''], Inr ''tx-1'')
   \<and> length (snd (fundAndUploadNestedBundle stub_sdk [file_a1, file_b])) = 2
   \<and> fundAndUploadNestedBundle stub_sdk [file_a1, file_b]
       = ([Log_chunk_uploaded 0 0 32 32, Log_upload_completed ''tx-1''],
          [''id-a.txt=id-one;b.png=id-img;'', ''tx-1''])"
proof -
  let ?files = "[file_a1, file_b]"
  let ?its = "[item_of ''one'' ''text/plain'', item_of ''img'' ''image/png'']"
  let ?itemMap = "[(''a.txt'', item_of ''one'' ''text/plain''),
                   (''b.png'', item_of ''img'' ''image/png'')]"
  let ?manifest = "[(''a.txt'', ''id-one''), (''b.png'', ''id-img'')]"
  let ?m = "Stub_item (Text ''a.txt=id-one;b.png=id-img;'') 7 manifest_tags None"
  let ?b = "[item_of ''one'' ''text/plain'', item_of ''img'' ''image/png'',
             Stub_item (Text ''a.txt=id-one;b.png=id-img;'') 7 manifest_tags (Some 7)]"
  let ?unsigned = "(''oneimga.txt=id-one;b.png=id-img;'', bundle_tags, False)"
  let ?signed = "(''oneimga.txt=id-one;b.png=id-img;'', bundle_tags, True)"
  let ?events = "[ChunkUpload 0 0 32 32, Done_event ''tx-1'']"
  have h2: "generateJWK stub_sdk = Inr 7"
    by (simp add: stub_sdk_def)
  have h3: "list_all2
        (\<lambda>file item. \<exists>buf created.
            file_arrayBuffer file = Inr buf
          \<and> createData stub_sdk (Uint8Array buf) (ArweaveSigner stub_sdk 7)
              [\<lparr>tag_name = ''Content-Type'', tag_value = file_type file\<rparr>] = Inr created
          \<and> sign stub_sdk created (ArweaveSigner stub_sdk 7) = Inr item)
        ?files ?its"
    by (simp add: stub_sdk_def stub_sign_def file_a1_def file_b_def item_of_def)
  have h4: "?itemMap = new_Map (zip (map file_name ?files) ?its)"
    by (simp add: new_Map_def Map_set_all_def file_a1_def file_b_def)
  have h5: "getIrys stub_sdk In_bundleItems = Inr ()"
    by (simp add: stub_sdk_def)
  have h6: "generateManifest stub_sdk ()
        (map (\<lambda>(path, item). (path, item_id stub_sdk item)) ?itemMap) = Inr ?manifest"
    by (simp add: stub_sdk_def stub_manifest_def object_set_def stub_id_def item_of_def)
  have h7: "createData stub_sdk (Text (JSON_stringify stub_sdk ?manifest))
        (ArweaveSigner stub_sdk 7)
        [\<lparr>tag_name = ''Type'', tag_value = ''manifest''\<rparr>,
         \<lparr>tag_name = ''Content-Type'',
            tag_value = ''application/x.arweave-manifest+json''\<rparr>] = Inr ?m"
    by (simp add: stub_sdk_def stub_json_def manifest_tags_def)
  have h8: "bundleAndSignData stub_sdk (map snd ?itemMap @ [?m]) (ArweaveSigner stub_sdk 7)
       = Inr ?b"
    by (simp add: stub_sdk_def stub_bundle_def stub_sign_def item_of_def)
  have h9: "getIrys stub_sdk In_uploadBundle = Inr ()"
    by (simp add: stub_sdk_def)
  have h10: "createTransaction stub_sdk () (getRaw stub_sdk ?b)
        [\<lparr>tag_name = ''Bundle-Format'', tag_value = ''binary''\<rparr>,
         \<lparr>tag_name = ''Bundle-Version'', tag_value = ''2.0.0''\<rparr>] = Inr ?unsigned"
    by (simp add: stub_sdk_def item_of_def bundle_tags_def)
  have h11: "tx_sign stub_sdk ?unsigned = Inr ?signed"
    by (simp add: stub_sdk_def)
  have h12: "uploadTransaction stub_sdk () ?signed = (?events, Inr ''tx-1'')"
    by (simp add: stub_sdk_def stub_upload_def)
  note run = fundAndUploadNestedBundle_two_ids
    [where lib = stub_sdk and files = ?files and jwk = 7 and its = ?its
       and itemMap = ?itemMap and irys = "()" and manifest = ?manifest and m = ?m
       and b = ?b and ?irys2.0 = "()" and ?tx0.0 = ?unsigned and tx = ?signed and events = ?events
       and receipt = "''tx-1''"]
  from run have two: "length (snd (fundAndUploadNestedBundle stub_sdk ?files)) = 2"
    by (rule conjunct1)
  from run stub_keeps_items h2 h3 h4 h5 h6 h7 h8 h9 h10 h11 h12
  obtain m' where
    at_end: "items stub_sdk ?b ! length ?itemMap = m'" and
    res: "fundAndUploadNestedBundle stub_sdk ?files
            = (map on_event ?events, [item_id stub_sdk m', receipt_data_id stub_sdk ''tx-1''])"
    by blast
  from at_end have "m' = Stub_item (Text ''a.txt=id-one;b.png=id-img;'') 7 manifest_tags (Some 7)"
    by (simp add: stub_sdk_def)
  with res have result: "fundAndUploadNestedBundle stub_sdk ?files
       = ([Log_chunk_uploaded 0 0 32 32, Log_upload_completed ''tx-1''],
          [''id-a.txt=id-one;b.png=id-img;'', ''tx-1''])"
    by (simp add: stub_sdk_def stub_id_def)
  from stub_keeps_items h2 h3 h4 h5 h6 h7 h8 h9 h10 h11 h12 two result
  show ?thesis by (intro conjI)
qed

lemma bundle_never_empty:
  assumes "bundle_keeps_items lib" and "bundleItems lib itemMap s = Inr b"
  shows "items lib b \<noteq> [] \<and> last_item_id lib b \<noteq> Inl TypeError"
proof -
  from assms(2) obtain m where
    "bundleAndSignData lib (Map_values itemMap @ [m]) s = Inr b"
    by (auto simp: bundleItems_Inr)
  from bundle_shape [OF assms(1) this] obtain us m' where
    shape: "items lib b = us @ [m']"
    by blast
  then show ?thesis by (simp add: last_item_id_snoc [OF shape])
qed

text \<open>
  C9. For the empty list of files, if the library calls made on the way succeed (and the
  library keeps the items of a bundle), the run completes without an exception: no file
  is prepared, the manifest is generated over the empty path map, the bundle holds exactly
  one item, the manifest item, the last-item access is in range, and the two identifiers
  are returned. The access is in range for every bundle \<open>bundleItems\<close> returns, since
  such a bundle is never empty.
\<close>

theorem fundAndUploadNestedBundle_empty:
  assumes "bundle_keeps_items lib"
    and "generateJWK lib = Inr jwk"
    and "getIrys lib In_bundleItems = Inr irys"
    and "generateManifest lib irys [] = Inr manifest"
    and "createData lib (Text (JSON_stringify lib manifest)) (ArweaveSigner lib jwk)
           manifest_tags = Inr m"
    and "bundleAndSignData lib [m] (ArweaveSigner lib jwk) = Inr b"
    and "getIrys lib In_uploadBundle = Inr irys2"
    and "createTransaction lib irys2 (getRaw lib b) bundle_tags = Inr tx0"
    and "tx_sign lib tx0 = Inr tx"
    and "uploadTransaction lib irys2 tx = (events, Inr receipt)"
  shows "(\<exists>m'. prepareFiles lib [] (ArweaveSigner lib jwk) = Inr []
            \<and> pathMap lib [] = []
            \<and> bundleItems lib [] (ArweaveSigner lib jwk) = Inr b
            \<and> items lib b = [m']
            \<and> bundled lib (ArweaveSigner lib jwk) m m'
            \<and> last_item_id lib b = Inr (item_id lib m')
            \<and> fundAndUploadNestedBundle lib []
                = (map on_event events, [item_id lib m', receipt_data_id lib receipt]))
       \<and> (\<forall>itemMap s b'. bundleItems lib itemMap s = Inr b'
             \<longrightarrow> items lib b' \<noteq> [] \<and> last_item_id lib b' \<noteq> Inl TypeError)"
proof -
  let ?s = "ArweaveSigner lib jwk"
  have prep: "prepareFiles lib [] ?s = Inr []"
    by (simp add: prepareFiles_def Promise_all_def new_Map_def Map_set_all_def)
  have paths: "pathMap lib [] = []"
    by (simp add: pathMap_def new_Map_def Map_set_all_def)
  have bun: "bundleItems lib [] ?s = Inr b"
    using assms(3,4,5,6) by (simp add: bundleItems_def paths Map_values_def)
  from assms(1,6) have "list_all2 (bundled lib ?s) [m] (items lib b)"
    by (simp add: bundle_keeps_items_def)
  then obtain m' where one: "items lib b = [m']" and m': "bundled lib ?s m m'"
    by (auto simp: list_all2_Cons1)
  have lid: "last_item_id lib b = Inr (item_id lib m')"
    using one by (simp add: last_item_id_def)
  have up: "uploadBundle lib b
              = (map on_event events, Inr [item_id lib m', receipt_data_id lib receipt])"
    using assms(7,8,9,10) lid by (simp add: uploadBundle_def)
  have "try_body lib []
          = (map on_event events, Inr [item_id lib m', receipt_data_id lib receipt])"
    using assms(2) prep bun up by (simp add: try_body_def)
  then have res: "fundAndUploadNestedBundle lib []
                = (map on_event events, [item_id lib m', receipt_data_id lib receipt])"
    by (rule fundAndUploadNestedBundle_Inr)
  have never: "\<forall>itemMap s b'. bundleItems lib itemMap s = Inr b'
             \<longrightarrow> items lib b' \<noteq> [] \<and> last_item_id lib b' \<noteq> Inl TypeError"
    using bundle_never_empty [OF assms(1)] by blast
  from prep paths bun one m' lid res never show ?thesis by blast
qed

theorem fundAndUploadNestedBundle_empty_witness:
  "bundle_keeps_items stub_sdk
   \<and> generateJWK stub_sdk = Inr 7
   \<and> getIrys stub_sdk In_bundleItems = Inr ()
   \<and> generateManifest stub_sdk () [] = Inr []
   \<and> createData stub_sdk (Text (JSON_stringify stub_sdk [])) (ArweaveSigner stub_sdk 7)
       manifest_tags = Inr (Stub_item (Text '''') 7 manifest_tags None)
   \<and> bundleAndSignData stub_sdk [Stub_item (Text '''') 7 manifest_tags None]
       (ArweaveSigner stub_sdk 7) = Inr [Stub_item (Text '''') 7 manifest_tags (Some 7)]
   \<and> getIrys stub_sdk In_uploadBundle = Inr ()
   \<and> createTransaction stub_sdk ()
       (getRaw stub_sdk [Stub_item (Text '''') 7 manifest_tags (Some 7)]) bundle_tags
       = Inr ('''', bundle_tags, False)
   \<and> tx_sign stub_sdk ('''', bundle_tags, False) = Inr ('''', bundle_tags, True)
   \<and> uploadTransaction stub_sdk () ('''', bundle_tags, True)
       = ([ChunkUpload 0 0 0 0, Done_event ''tx-1''], Inr ''tx-1'')
   \<and> items stub_sdk [Stub_item (Text '''') 7 manifest_tags (Some 7)]
       = [Stub_item (Text '''') 7 manifest_tags (Some 7)]
   \<and> fundAndUploadNestedBundle stub_sdk []
       = ([Log_chunk_uploaded 0 0 0 0, Log_upload_completed ''tx-1''], [''id-'', ''tx-1''])
   \<and> bundleItems stub_sdk [] 7 = Inr [Stub_item (Text '''') 7 manifest_tags (Some 7)]
   \<and> last_item_id stub_sdk [Stub_item (Text '''') 7 manifest_tags (Some 7)] \<noteq> Inl TypeError"
proof -
  have h2: "generateJWK stub_sdk = Inr 7"
    and h3: "getIrys stub_sdk In_bundleItems = Inr ()"
    and h4: "generateManifest stub_sdk () [] = Inr []"
    and h5: "createData stub_sdk (Text (JSON_stringify stub_sdk [])) (ArweaveSigner stub_sdk 7)
       manifest_tags = Inr (Stub_item (Text '''') 7 manifest_tags None)"
    and h6: "bundleAndSignData stub_sdk [Stub_item (Text '''') 7 manifest_tags None]
       (ArweaveSigner stub_sdk 7) = Inr [Stub_item (Text '''') 7 manifest_tags (Some 7)]"
    and h6b: "getIrys stub_sdk In_uploadBundle = Inr ()"
    and h7: "createTransaction stub_sdk ()
       (getRaw stub_sdk [Stub_item (Text '''') 7 manifest_tags (Some 7)]) bundle_tags
       = Inr ('''', bundle_tags, False)"
    and h8: "tx_sign stub_sdk ('''', bundle_tags, False) = Inr ('''', bundle_tags, True)"
    and h9: "uploadTransaction stub_sdk () ('''', bundle_tags, True)
       = ([ChunkUpload 0 0 0 0, Done_event ''tx-1''], Inr ''tx-1'')"
    by (simp_all add: stub_sdk_def stub_json_def stub_manifest_def stub_bundle_def
        stub_sign_def stub_upload_def)
  from fundAndUploadNestedBundle_empty [OF stub_keeps_items h2 h3 h4 h5 h6 h6b h7 h8 h9]
  obtain m' where
    one: "items stub_sdk [Stub_item (Text '''') 7 manifest_tags (Some 7)] = [m']" and
    res: "fundAndUploadNestedBundle stub_sdk []
            = (map on_event [ChunkUpload 0 0 0 0, Done_event ''tx-1''],
               [item_id stub_sdk m', receipt_data_id stub_sdk ''tx-1''])" and
    bun: "bundleItems stub_sdk [] (ArweaveSigner stub_sdk 7)
            = Inr [Stub_item (Text '''') 7 manifest_tags (Some 7)]" and
    never: "\<forall>itemMap s b'. bundleItems stub_sdk itemMap s = Inr b'
             \<longrightarrow> items stub_sdk b' \<noteq> [] \<and> last_item_id stub_sdk b' \<noteq> Inl TypeError"
    by blast
  have "ArweaveSigner stub_sdk 7 = 7"
    by (simp add: stub_sdk_def)
  with bun have bun7: "bundleItems stub_sdk [] 7
            = Inr [Stub_item (Text '''') 7 manifest_tags (Some 7)]"
    by simp
  with never have in_range:
    "last_item_id stub_sdk [Stub_item (Text '''') 7 manifest_tags (Some 7)] \<noteq> Inl TypeError"
    by blast
  from one have "m' = Stub_item (Text '''') 7 manifest_tags (Some 7)"
    by (simp add: stub_sdk_def)
  with res have "fundAndUploadNestedBundle stub_sdk []
       = ([Log_chunk_uploaded 0 0 0 0, Log_upload_completed ''tx-1''], [''id-'', ''tx-1''])"
    by (simp add: stub_sdk_def stub_id_def)
  moreover have "items stub_sdk [Stub_item (Text '''') 7 manifest_tags (Some 7)]
       = [Stub_item (Text '''') 7 manifest_tags (Some 7)]"
    by (simp add: stub_sdk_def)
  ultimately show ?thesis
    using stub_keeps_items h2 h3 h4 h5 h6 h6b h7 h8 h9 bun7 in_range by blast
qed

end
